theory Spec2Isabelle
  imports Complex_Main
begin

section \<open>JavaScript numbers\<close>

text \<open>
  A JavaScript number is an IEEE 754 double. A finite double is modelled by the real number
  it denotes, and an arithmetic operation of the source (\<open>+\<close>, \<open>-\<close>, \<open>*\<close>, \<open>/\<close>,
  \<open>Math.sqrt\<close>, a decimal literal) by the exact operation on the reals followed by \<open>fl\<close>,
  the rounding to the nearest double, ties to the even significand. The doubles of binade
  \<open>e\<close> (magnitude from \<open>2 ^ e\<close> up to \<open>2 ^ (e + 1)\<close>) are the multiples of \<open>2 ^ (e - 52)\<close>;
  below \<open>2 ^ emin\<close> they are the multiples of \<open>2 ^ (emin - 52)\<close> (the subnormal numbers).
  Not modelled are the sign of zero, \<open>NaN\<close> and the infinities: \<open>fl\<close> rounds a number
  beyond the largest double as if the exponents were unbounded above, and a division by zero
  gives 0. \<open>Math.floor\<close> is \<open>floor\<close>; loop counters and heights, which the source obtains
  from \<open>Math.floor\<close>, are of type \<open>int\<close>.

  The two noise functions of the terrain generator are the exception: they are computed in
  the reals, with the sine of the reals.
\<close>

definition roundEven :: "real \<Rightarrow> int" where
  "roundEven r =
     (let f = \<lfloor>r\<rfloor>; d = r - of_int f
      in if d < 1 / 2 then f else if d > 1 / 2 then f + 1 else if even f then f else f + 1)"

definition emin :: int where "emin = - 1022"

text \<open>The spacing of the doubles around \<open>x\<close>.\<close>

definition quantum :: "real \<Rightarrow> real" where
  "quantum x = 2 powi (max \<lfloor>log 2 \<bar>x\<bar>\<rfloor> emin - 52)"

definition fl :: "real \<Rightarrow> real" where
  "fl x = (if x = 0 then 0 else of_int (roundEven (x / quantum x)) * quantum x)"

text \<open>\<open>Math.PI\<close>, the double nearest to \<open>pi\<close>.\<close>

definition Math_PI :: real where "Math_PI = 884279719003555 / 2 ^ 48"

section \<open>Data model of the voxel world (src/App.tsx)\<close>

text \<open>
  Materials, textures, decorations and the scene graph are rendering data and are not part
  of the model.
\<close>

datatype BlockType = grass | dirt | stone | bedrock | wood | leaves

record Vector3 =
  vx :: real
  vy :: real
  vz :: real

text \<open>
  A \<open>Mesh\<close> is an object with an identity (\<open>===\<close> in the source compares references);
  the identity is the number \<open>mesh_id\<close>, fresh at every \<open>new Mesh\<close>. Of the mesh's
  transform the program sets \<open>position\<close> (a copy of the block's) and \<open>rotation.y\<close>,
  the angle in radians by which the mesh is turned about the Y axis; the other two angles
  of the rotation stay 0.
\<close>

record Mesh =
  mesh_id :: nat
  mesh_position :: Vector3
  rotation_y :: real

text \<open>The interface \<open>Block\<close>: position, type and mesh. A Block object and its mesh are
  created together, one for one, so the block's identity is its mesh's.\<close>

record Block =
  position :: Vector3
  type :: BlockType
  mesh :: Mesh

definition WORLD_SIZE :: int where "WORLD_SIZE = 10"
definition BLOCK_SIZE :: real where "BLOCK_SIZE = 1"
definition GRAVITY :: real where "GRAVITY = fl 0.01"
definition JUMP_FORCE :: real where "JUMP_FORCE = fl 0.15"
definition PLAYER_HEIGHT :: real where "PLAYER_HEIGHT = fl 1.6"
definition PLAYER_WIDTH :: real where "PLAYER_WIDTH = fl 0.6"

text \<open>The block registry \<open>blocks.current\<close>, in insertion order, with the two things
  \<open>createBlock\<close> draws on besides its arguments: the supply of fresh object identities
  and \<open>Math.random\<close>. The random source is an arbitrary stream of numbers, read in order.
  Only the draws that decide positions, types and transforms are read from it; the draws
  that \<open>createBlock\<close> spends on colours and decorations are not modelled, which leaves
  the set of possible worlds the same because the stream is arbitrary.\<close>

record World =
  blocks :: "Block list"
  nextMeshId :: nat
  randomStream :: "nat \<Rightarrow> real"
  randomDrawn :: nat

definition Math_random :: "World \<Rightarrow> real \<times> World" where
  "Math_random w = (randomStream w (randomDrawn w), w\<lparr>randomDrawn := randomDrawn w + 1\<rparr>)"

text \<open>createBlock: builds the mesh and pushes the block; there is no check that the cell is
  free. Unless the block is bedrock the mesh is turned by
  \<open>(Math.floor(Math.random() * 4) * Math.PI) / 2\<close>.\<close>

definition createBlock :: "Vector3 \<Rightarrow> BlockType \<Rightarrow> World \<Rightarrow> World" where
  "createBlock pos ty w =
     (let (rot, w1) =
            (if ty \<noteq> bedrock
             then (let (r, w') = Math_random w
                   in (fl (fl (real_of_int \<lfloor>fl (r * 4)\<rfloor> * Math_PI) / 2), w'))
             else (0, w));
          m = \<lparr>mesh_id = nextMeshId w1, mesh_position = pos, rotation_y = rot\<rparr>;
          block = \<lparr>position = pos, type = ty, mesh = m\<rparr>
      in w1\<lparr>blocks := blocks w1 @ [block], nextMeshId := nextMeshId w1 + 1\<rparr>)"

section \<open>Terrain generation\<close>

text \<open>The coordinate-hash noise functions of \<open>generateTerrain\<close>.\<close>

definition noise :: "real \<Rightarrow> real \<Rightarrow> real \<Rightarrow> real \<Rightarrow> real" where
  "noise x z scale amplitude =
     (let X = real_of_int \<lfloor>x * scale\<rfloor>;
          Z = real_of_int \<lfloor>z * scale\<rfloor>;
          dot1 = sin (X * 12.9898 + Z * 78.233) * 43758.5453;
          dot2 = sin (X * 63.9898 + Z * 23.233) * 93758.5453
      in ((sin dot1 + sin dot2) * 0.5 + 0.5) * amplitude)"

definition noise3D :: "real \<Rightarrow> real \<Rightarrow> real \<Rightarrow> real" where
  "noise3D x y z =
     (let X = real_of_int \<lfloor>x * 0.5\<rfloor>;
          Y = real_of_int \<lfloor>y * 0.5\<rfloor>;
          Z = real_of_int \<lfloor>z * 0.5\<rfloor>;
          dot = sin (X * 12.9898 + Y * 43.233 + Z * 78.233) * 43758.5453
      in sin dot * 0.5 + 0.5)"

definition cell :: "int \<Rightarrow> int \<Rightarrow> int \<Rightarrow> Vector3" where
  "cell x y z = \<lparr>vx = real_of_int x * BLOCK_SIZE, vy = real_of_int y, vz = real_of_int z * BLOCK_SIZE\<rparr>"

text \<open>generateTree x z baseHeight: the trunk loop, then the three nested leaf loops. A
  \<open>continue\<close> leaves the world as it is.\<close>

definition leafCell :: "int \<Rightarrow> int \<Rightarrow> int \<Rightarrow> int \<Rightarrow> int \<Rightarrow> int \<Rightarrow> int \<Rightarrow> int \<Rightarrow> World \<Rightarrow> World" where
  "leafCell x z baseHeight leafStartHeight layerRadius y lx lz w =
     (if lx * lx + lz * lz > layerRadius * layerRadius + 1 then w
      else (let (r, w1) = Math_random w
            in if r > 0.8 then w1
               else createBlock (cell (x + lx) (baseHeight + leafStartHeight + y) (z + lz)) leaves w1))"

definition leafLayer :: "int \<Rightarrow> int \<Rightarrow> int \<Rightarrow> int \<Rightarrow> int \<Rightarrow> int \<Rightarrow> int \<Rightarrow> World \<Rightarrow> World" where
  "leafLayer x z baseHeight leafStartHeight leafRadius leafHeight y w =
     (let layerRadius = (if y = 0 \<or> y = leafHeight - 1 then max 1 (leafRadius - 1) else leafRadius)
      in fold (\<lambda>lx. fold (leafCell x z baseHeight leafStartHeight layerRadius y lx)
                 [- layerRadius .. layerRadius])
           [- layerRadius .. layerRadius] w)"

definition generateTree :: "int \<Rightarrow> int \<Rightarrow> int \<Rightarrow> World \<Rightarrow> World" where
  "generateTree x z baseHeight w =
     (let (r1, w1) = Math_random w;
          trunkHeight = \<lfloor>r1 * 3\<rfloor> + 3;
          w2 = fold (\<lambda>y. createBlock (cell x (baseHeight + y + 1) z) wood) [0 .. trunkHeight - 1] w1;
          (r2, w3) = Math_random w2;
          leafRadius = \<lfloor>r2 * 1\<rfloor> + 2;
          (r3, w4) = Math_random w3;
          leafHeight = \<lfloor>r3 * 2\<rfloor> + 2;
          leafStartHeight = trunkHeight - 1
      in fold (leafLayer x z baseHeight leafStartHeight leafRadius leafHeight) [0 .. leafHeight - 1] w4)"

text \<open>The body of the double loop over the columns, with the two noise functions as
  arguments (\<open>nz\<close> for \<open>noise\<close>, \<open>n3\<close> for \<open>noise3D\<close>).\<close>

definition baseHeightOf :: "(real \<Rightarrow> real \<Rightarrow> real \<Rightarrow> real \<Rightarrow> real) \<Rightarrow> int \<Rightarrow> int \<Rightarrow> real" where
  "baseHeightOf nz x z = nz x z 0.1 4 + nz x z 0.2 2 + nz x z 0.5 1"

definition heightOf :: "(real \<Rightarrow> real \<Rightarrow> real \<Rightarrow> real \<Rightarrow> real) \<Rightarrow> int \<Rightarrow> int \<Rightarrow> int" where
  "heightOf nz x z = \<lfloor>baseHeightOf nz x z\<rfloor> - 2"

definition topBlockTypeOf :: "(real \<Rightarrow> real \<Rightarrow> real \<Rightarrow> real \<Rightarrow> real) \<Rightarrow> int \<Rightarrow> int \<Rightarrow> BlockType" where
  "topBlockTypeOf nz x z = (if nz x z 0.3 1 > 0.8 \<and> baseHeightOf nz x z > 3 then stone else grass)"

definition dirtDepthOf :: "(real \<Rightarrow> real \<Rightarrow> real \<Rightarrow> real \<Rightarrow> real) \<Rightarrow> int \<Rightarrow> int \<Rightarrow> int" where
  "dirtDepthOf nz x z = (if topBlockTypeOf nz x z = stone then 1 else \<lfloor>nz x z 0.4 2\<rfloor> + 2)"

definition fillBlockTypeOf :: "(real \<Rightarrow> real \<Rightarrow> real \<Rightarrow> real) \<Rightarrow> int \<Rightarrow> int \<Rightarrow> int \<Rightarrow> BlockType" where
  "fillBlockTypeOf n3 x y z = (if n3 x y z > 0.9 then dirt else stone)"

definition bedrockLevel :: int where "bedrockLevel = - 7"

definition generateColumn ::
  "(real \<Rightarrow> real \<Rightarrow> real \<Rightarrow> real \<Rightarrow> real) \<Rightarrow> (real \<Rightarrow> real \<Rightarrow> real \<Rightarrow> real) \<Rightarrow> int \<Rightarrow> int \<Rightarrow> World \<Rightarrow> World" where
  "generateColumn nz n3 x z w =
     (let height = heightOf nz x z;
          topBlockType = topBlockTypeOf nz x z;
          w1 = createBlock (cell x height z) topBlockType w;
          dirtDepth = dirtDepthOf nz x z;
          w2 = fold (\<lambda>y. createBlock (cell x (height - y) z) dirt) [1 .. dirtDepth] w1;
          w3 = fold (\<lambda>y. createBlock (cell x (height - y) z) (fillBlockTypeOf n3 x y z))
                 [dirtDepth + 1 .. \<bar>bedrockLevel - height\<bar>] w2;
          w4 = createBlock (cell x bedrockLevel z) bedrock w3
      in if topBlockType = grass \<and> x > 2 \<and> x < WORLD_SIZE - 3 \<and> z > 2 \<and> z < WORLD_SIZE - 3
         then (let (r, w5) = Math_random w4 in if r < 0.05 then generateTree x z height w5 else w5)
         else w4)"

definition generateTerrainWith ::
  "(real \<Rightarrow> real \<Rightarrow> real \<Rightarrow> real \<Rightarrow> real) \<Rightarrow> (real \<Rightarrow> real \<Rightarrow> real \<Rightarrow> real) \<Rightarrow> World \<Rightarrow> World" where
  "generateTerrainWith nz n3 w =
     fold (\<lambda>x. fold (generateColumn nz n3 x) [0 .. WORLD_SIZE - 1]) [0 .. WORLD_SIZE - 1] w"

definition generateTerrain :: "World \<Rightarrow> World" where
  "generateTerrain = generateTerrainWith noise noise3D"

text \<open>The registry before generation: \<open>blocks = useRef([])\<close>.\<close>

definition emptyWorld :: "(nat \<Rightarrow> real) \<Rightarrow> World" where
  "emptyWorld rnd = \<lparr>blocks = [], nextMeshId = 0, randomStream = rnd, randomDrawn = 0\<rparr>"


section \<open>Vectors and boxes (the parts of three.js the program computes with)\<close>

text \<open>The methods of \<open>Vector3\<close>, each component computed in doubles.\<close>

definition add :: "Vector3 \<Rightarrow> Vector3 \<Rightarrow> Vector3" where
  "add a b = \<lparr>vx = fl (vx a + vx b), vy = fl (vy a + vy b), vz = fl (vz a + vz b)\<rparr>"

definition sub :: "Vector3 \<Rightarrow> Vector3 \<Rightarrow> Vector3" where
  "sub a b = \<lparr>vx = fl (vx a - vx b), vy = fl (vy a - vy b), vz = fl (vz a - vz b)\<rparr>"

definition multiplyScalar :: "Vector3 \<Rightarrow> real \<Rightarrow> Vector3" where
  "multiplyScalar a k = \<lparr>vx = fl (vx a * k), vy = fl (vy a * k), vz = fl (vz a * k)\<rparr>"

text \<open>\<open>length()\<close> is \<open>Math.sqrt(x * x + y * y + z * z)\<close>.\<close>

definition length_v :: "Vector3 \<Rightarrow> real" where
  "length_v a = fl (sqrt (fl (fl (fl (vx a * vx a) + fl (vy a * vy a)) + fl (vz a * vz a))))"

text \<open>Vector3.normalize is \<open>divideScalar(length() || 1)\<close>, and \<open>divideScalar(s)\<close> is
  \<open>multiplyScalar(1 / s)\<close>: the zero vector stays as it is.\<close>

definition normalize_v :: "Vector3 \<Rightarrow> Vector3" where
  "normalize_v a = multiplyScalar a (fl (1 / (if length_v a = 0 then 1 else length_v a)))"

record Box3 =
  box_min :: Vector3
  box_max :: Vector3

definition setFromCenterAndSize :: "Vector3 \<Rightarrow> Vector3 \<Rightarrow> Box3" where
  "setFromCenterAndSize center sz =
     (let halfSize = multiplyScalar sz 0.5
      in \<lparr>box_min = sub center halfSize, box_max = add center halfSize\<rparr>)"

definition intersectsBox :: "Box3 \<Rightarrow> Box3 \<Rightarrow> bool" where
  "intersectsBox this box =
     (vx (box_max box) \<ge> vx (box_min this) \<and> vx (box_min box) \<le> vx (box_max this) \<and>
      vy (box_max box) \<ge> vy (box_min this) \<and> vy (box_min box) \<le> vy (box_max this) \<and>
      vz (box_max box) \<ge> vz (box_min this) \<and> vz (box_min box) \<le> vz (box_max this))"

section \<open>The state of the App component\<close>

record MoveState =
  forward :: bool
  backward :: bool
  left :: bool
  right :: bool
  rotateX :: real
  rotateY :: real
  jump :: bool

text \<open>\<open>eulerRef\<close>: order YXZ, of which the program writes x (pitch) and y (yaw).\<close>

record Euler =
  euler_x :: real
  euler_y :: real

record Camera =
  cam_position :: Vector3
  quaternion :: Euler

record Slot =
  slot_type :: BlockType
  count :: int

text \<open>A reanimated shared value: a number, or a \<open>withTiming\<close> animation towards a target,
  with its duration and the time it has run (both in ms) and its completion callback. The
  only callback in the program is the one of \<open>startDestructionProgress\<close>, which calls
  \<open>destroyBlockAtPosition x y\<close> when the animation has finished.\<close>

datatype Callback = NoCallback | DestroyAt real real

datatype SharedValue = Settled real | Timing real nat nat Callback

text \<open>What a raycaster returns for a mesh it hits: the mesh (by identity) and the face hit,
  if any, given by its normal in the mesh's local space.\<close>

record Intersection =
  object :: nat
  face :: "Vector3 option"

text \<open>The functions of three.js and React Native that the program calls and that are not
  modelled further; every theorem below holds for all of them.
  \<^item> \<open>applyQuaternion q v\<close>: \<open>v\<close> rotated by the camera orientation \<open>q\<close>;
  \<^item> \<open>setFromObject m\<close>: the world bounding box of mesh \<open>m\<close> with its decorations;
  \<^item> \<open>rayIntersectObject origin direction near far m\<close>: the hits of that ray on \<open>m\<close>;
  \<^item> \<open>cameraIntersectObjects camera nx ny ms\<close>: the hits, nearest first, of the ray from
    the camera through the point \<open>(nx, ny)\<close> in normalised device coordinates on the
    meshes \<open>ms\<close>;
  \<^item> \<open>window_width\<close>, \<open>window_height\<close>: \<open>Dimensions.get('window')\<close>;
  \<^item> \<open>Math_sin\<close>, \<open>Math_cos\<close>: the platform's \<open>Math.sin\<close> and \<open>Math.cos\<close>, whose results
    ECMAScript leaves to the implementation except at 0.\<close>

record Lib =
  applyQuaternion :: "Euler \<Rightarrow> Vector3 \<Rightarrow> Vector3"
  setFromObject :: "Mesh \<Rightarrow> Box3"
  rayIntersectObject :: "Vector3 \<Rightarrow> Vector3 \<Rightarrow> real \<Rightarrow> real \<Rightarrow> Mesh \<Rightarrow> Intersection list"
  cameraIntersectObjects :: "Camera \<Rightarrow> real \<Rightarrow> real \<Rightarrow> Mesh list \<Rightarrow> Intersection list"
  window_width :: real
  window_height :: real
  Math_sin :: "real \<Rightarrow> real"
  Math_cos :: "real \<Rightarrow> real"

section \<open>The world matrix of a mesh\<close>

text \<open>ECMAScript fixes \<open>Math.sin(0) = 0\<close> and \<open>Math.cos(0) = 1\<close>.\<close>

definition js_sin :: "Lib \<Rightarrow> real \<Rightarrow> real" where
  "js_sin lib x = (if x = 0 then 0 else Math_sin lib x)"

definition js_cos :: "Lib \<Rightarrow> real \<Rightarrow> real" where
  "js_cos lib x = (if x = 0 then 1 else Math_cos lib x)"

text \<open>Assigning \<open>mesh.rotation.y\<close> makes three.js recompute the mesh's quaternion from its
  Euler angles, with \<open>Quaternion.setFromEuler\<close> for the order XYZ.\<close>

record Quaternion =
  q_x :: real
  q_y :: real
  q_z :: real
  q_w :: real

definition setFromEuler :: "Lib \<Rightarrow> real \<Rightarrow> real \<Rightarrow> real \<Rightarrow> Quaternion" where
  "setFromEuler lib x y z =
     (let c1 = js_cos lib (fl (x / 2)); c2 = js_cos lib (fl (y / 2)); c3 = js_cos lib (fl (z / 2));
          s1 = js_sin lib (fl (x / 2)); s2 = js_sin lib (fl (y / 2)); s3 = js_sin lib (fl (z / 2))
      in \<lparr>q_x = fl (fl (fl (s1 * c2) * c3) + fl (fl (c1 * s2) * s3)),
          q_y = fl (fl (fl (c1 * s2) * c3) - fl (fl (s1 * c2) * s3)),
          q_z = fl (fl (fl (c1 * c2) * s3) + fl (fl (s1 * s2) * c3)),
          q_w = fl (fl (fl (c1 * c2) * c3) - fl (fl (s1 * s2) * s3))\<rparr>)"

text \<open>The rotation part of the matrix that \<open>Matrix4.compose\<close> builds from the quaternion and
  the scale \<open>(1, 1, 1)\<close>; \<open>e0\<close>, \<open>e1\<close>, \<open>e2\<close> are the first column, \<open>e4\<close>, \<open>e5\<close>, \<open>e6\<close> the
  second, \<open>e8\<close>, \<open>e9\<close>, \<open>e10\<close> the third.\<close>

record Matrix =
  e0 :: real
  e1 :: real
  e2 :: real
  e4 :: real
  e5 :: real
  e6 :: real
  e8 :: real
  e9 :: real
  e10 :: real

definition compose :: "Quaternion \<Rightarrow> Matrix" where
  "compose q =
     (let x = q_x q; y = q_y q; z = q_z q; w = q_w q;
          x2 = fl (x + x); y2 = fl (y + y); z2 = fl (z + z);
          xx = fl (x * x2); xy = fl (x * y2); xz = fl (x * z2);
          yy = fl (y * y2); yz = fl (y * z2); zz = fl (z * z2);
          wx = fl (w * x2); wy = fl (w * y2); wz = fl (w * z2)
      in \<lparr>e0 = fl (fl (1 - fl (yy + zz)) * 1),
          e1 = fl (fl (xy + wz) * 1),
          e2 = fl (fl (xz - wy) * 1),
          e4 = fl (fl (xy - wz) * 1),
          e5 = fl (fl (1 - fl (xx + zz)) * 1),
          e6 = fl (fl (yz + wx) * 1),
          e8 = fl (fl (xz + wy) * 1),
          e9 = fl (fl (yz - wx) * 1),
          e10 = fl (fl (1 - fl (xx + yy)) * 1)\<rparr>)"

text \<open>\<open>mesh.matrixWorld\<close>, as the renderer computes it at each frame: the group that holds
  the meshes and the scene are not transformed, so it is the mesh's own matrix.\<close>

definition matrixWorld :: "Lib \<Rightarrow> Mesh \<Rightarrow> Matrix" where
  "matrixWorld lib m = compose (setFromEuler lib 0 (rotation_y m) 0)"

text \<open>Vector3.transformDirection: the vector is multiplied by the rotation part of the
  matrix and normalised.\<close>

definition applyMatrix :: "Matrix \<Rightarrow> Vector3 \<Rightarrow> Vector3" where
  "applyMatrix e n =
     \<lparr>vx = fl (fl (fl (e0 e * vx n) + fl (e4 e * vy n)) + fl (e8 e * vz n)),
      vy = fl (fl (fl (e1 e * vx n) + fl (e5 e * vy n)) + fl (e9 e * vz n)),
      vz = fl (fl (fl (e2 e * vx n) + fl (e6 e * vy n)) + fl (e10 e * vz n))\<rparr>"

definition transformDirection :: "Lib \<Rightarrow> Vector3 \<Rightarrow> Mesh \<Rightarrow> Vector3" where
  "transformDirection lib n m = normalize_v (applyMatrix (matrixWorld lib m) n)"

text \<open>The refs, shared values and React state of \<open>App\<close>. The registry \<open>blocks\<close> lives in
  \<open>world\<close>. A block reference (\<open>highlightedBlockRef\<close>) is the identity of the block's mesh.
  The touch indicator (\<open>touchX\<close>, \<open>touchY\<close>, \<open>touchVisible\<close>) is display only and left out.\<close>

record App =
  world :: World
  cameraRef :: "Camera option"
  eulerRef :: Euler
  playerVelocity :: Vector3
  playerOnGround :: bool
  moveState :: MoveState
  highlightedBlockRef :: "nat option"
  destructionProgress :: SharedValue
  isDestructionInProgress :: bool
  isPanning :: bool
  inventory :: "Slot list"
  selectedBlockIndex :: nat

definition moveSpeed :: real where "moveSpeed = fl 0.1"
definition rotateSpeed :: real where "rotateSpeed = fl 0.05"

definition releasedMoveState :: MoveState where
  "releasedMoveState = \<lparr>forward = False, backward = False, left = False, right = False,
     rotateX = 0, rotateY = 0, jump = False\<rparr>"

definition initialApp :: "(nat \<Rightarrow> real) \<Rightarrow> App" where
  "initialApp rnd =
     \<lparr>world = emptyWorld rnd,
      cameraRef = None,
      eulerRef = \<lparr>euler_x = 0, euler_y = 0\<rparr>,
      playerVelocity = \<lparr>vx = 0, vy = 0, vz = 0\<rparr>,
      playerOnGround = False,
      moveState = releasedMoveState,
      highlightedBlockRef = None,
      destructionProgress = Settled 0,
      isDestructionInProgress = False,
      isPanning = False,
      inventory = map (\<lambda>t. \<lparr>slot_type = t, count = 64\<rparr>) [grass, dirt, stone, bedrock, wood, leaves],
      selectedBlockIndex = 0\<rparr>"


section \<open>Player movement and physics\<close>

definition handleMovementJoystick :: "real \<Rightarrow> real \<Rightarrow> App \<Rightarrow> App" where
  "handleMovementJoystick x y s =
     s\<lparr>moveState := (moveState s)\<lparr>forward := y < - fl 0.2, backward := y > fl 0.2,
                                      left := x < - fl 0.2, right := x > fl 0.2\<rparr>\<rparr>"

definition handleCameraPan :: "real \<Rightarrow> real \<Rightarrow> App \<Rightarrow> App" where
  "handleCameraPan x y s =
     (if isPanning s
      then s\<lparr>moveState := (moveState s)\<lparr>rotateX := fl (fl (x * rotateSpeed) * fl 0.01),
                                            rotateY := fl (fl (y * rotateSpeed) * fl 0.01)\<rparr>\<rparr>
      else s)"

definition handleJoystickRelease :: "App \<Rightarrow> App" where
  "handleJoystickRelease s = s\<lparr>moveState := releasedMoveState\<rparr>"

definition handleJump :: "bool \<Rightarrow> App \<Rightarrow> App" where
  "handleJump v s =
     (let s1 = s\<lparr>moveState := (moveState s)\<lparr>jump := v\<rparr>\<rparr>
      in if playerOnGround s1 \<and> v
         then s1\<lparr>playerVelocity := (playerVelocity s1)\<lparr>vy := JUMP_FORCE\<rparr>, playerOnGround := False\<rparr>
         else s1)"

text \<open>updatePlayerPosition is given in the order of the source, each of its steps as a
  function: the horizontal movement vector from the four intents and the camera's forward and
  right vectors; gravity and jump; the rotation; the candidate position; the scan of all
  blocks; and last the function itself with the commit of the position.\<close>

definition moveDirectionOf :: "Vector3 \<Rightarrow> Vector3 \<Rightarrow> MoveState \<Rightarrow> Vector3" where
  "moveDirectionOf forwardV rightV ms =
     (let m0 = \<lparr>vx = 0, vy = 0, vz = 0\<rparr>;
          m1 = (if forward ms then add m0 forwardV else m0);
          m2 = (if backward ms then sub m1 forwardV else m1);
          m3 = (if left ms then sub m2 rightV else m2);
          m4 = (if right ms then add m3 rightV else m3)
      in if length_v m4 > 0 then multiplyScalar (normalize_v m4) moveSpeed else m4)"

definition applyGravityAndJump :: "MoveState \<Rightarrow> real \<times> bool \<Rightarrow> real \<times> bool" where
  "applyGravityAndJump ms vg =
     (let (v, g) = vg;
          v1 = (if \<not> g then fl (v - GRAVITY) else v)
      in if jump ms \<and> g then (JUMP_FORCE, False) else (v1, g))"

text \<open>The variables the scan of the blocks updates: \<open>newPosition.y\<close>,
  \<open>playerVelocity.current.y\<close>, \<open>onGround\<close> and \<open>collided\<close>.\<close>

record Scan =
  newY :: real
  velY :: real
  onGround :: bool
  collided :: bool

definition collideBlock :: "Lib \<Rightarrow> Vector3 \<Rightarrow> Box3 \<Rightarrow> Block \<Rightarrow> Scan \<Rightarrow> Scan" where
  "collideBlock lib camPos playerCollider block c =
     (let blockBox = setFromObject lib (mesh block);
          c1 = (if intersectsBox playerCollider blockBox
                then (if velY c \<le> 0 \<and> vy camPos > fl (vy (position block) + BLOCK_SIZE)
                      then c\<lparr>newY := fl (fl (vy (position block) + BLOCK_SIZE) + fl (PLAYER_HEIGHT / 2)),
                             velY := 0, onGround := True\<rparr>
                      else c\<lparr>collided := True\<rparr>)
                else c);
          intersects = rayIntersectObject lib camPos \<lparr>vx = 0, vy = - 1, vz = 0\<rparr> 0
                         (fl (fl (PLAYER_HEIGHT / 2) + fl 0.1)) (mesh block)
      in if length intersects > 0 then c1\<lparr>onGround := True\<rparr> else c1)"

text \<open>The rotation step: the look deltas are applied and the pitch is clamped.\<close>

definition updateRotation :: "MoveState \<Rightarrow> Euler \<Rightarrow> Euler" where
  "updateRotation ms eu =
     (let e1 = eu\<lparr>euler_y := fl (euler_y eu - rotateX ms), euler_x := fl (euler_x eu - rotateY ms)\<rparr>;
          maxVerticalRotation = fl (Math_PI * fl 0.45)
      in e1\<lparr>euler_x := max (- maxVerticalRotation) (min maxVerticalRotation (euler_x e1))\<rparr>)"

text \<open>\<open>newPosition\<close>: the camera position moved by the movement vector and the vertical
  velocity \<open>v\<close>.\<close>

definition candidatePosition :: "Lib \<Rightarrow> Camera \<Rightarrow> Euler \<Rightarrow> MoveState \<Rightarrow> real \<Rightarrow> Vector3" where
  "candidatePosition lib camera e ms v =
     (let forwardV = normalize_v ((applyQuaternion lib e \<lparr>vx = 0, vy = 0, vz = - 1\<rparr>)\<lparr>vy := 0\<rparr>);
          rightV = normalize_v ((applyQuaternion lib e \<lparr>vx = 1, vy = 0, vz = 0\<rparr>)\<lparr>vy := 0\<rparr>);
          moveDirection = moveDirectionOf forwardV rightV ms;
          p = add (cam_position camera) moveDirection
      in p\<lparr>vy := fl (vy p + v)\<rparr>)"

definition playerColliderAt :: "Vector3 \<Rightarrow> Box3" where
  "playerColliderAt newPosition =
     setFromCenterAndSize
       \<lparr>vx = vx newPosition, vy = fl (vy newPosition - fl (PLAYER_HEIGHT / 2)), vz = vz newPosition\<rparr>
       \<lparr>vx = PLAYER_WIDTH, vy = PLAYER_HEIGHT, vz = PLAYER_WIDTH\<rparr>"

text \<open>The loop over all blocks, from \<open>collided = false\<close>, \<open>onGround = false\<close>.\<close>

definition scanBlocks :: "Lib \<Rightarrow> Vector3 \<Rightarrow> Vector3 \<Rightarrow> real \<Rightarrow> Block list \<Rightarrow> Scan" where
  "scanBlocks lib camPos newPosition v bs =
     fold (collideBlock lib camPos (playerColliderAt newPosition)) bs
       \<lparr>newY = vy newPosition, velY = v, onGround = False, collided = False\<rparr>"

definition updatePlayerPosition :: "Lib \<Rightarrow> App \<Rightarrow> App" where
  "updatePlayerPosition lib s =
     (case cameraRef s of
        None \<Rightarrow> s
      | Some camera \<Rightarrow>
         (let e = updateRotation (moveState s) (eulerRef s);
              (v, g) = applyGravityAndJump (moveState s) (vy (playerVelocity s), playerOnGround s);
              newPosition = candidatePosition lib camera e (moveState s) v;
              c = scanBlocks lib (cam_position camera) newPosition v (blocks (world s));
              pos = (if \<not> collided c then newPosition\<lparr>vy := newY c\<rparr>
                     else (cam_position camera)\<lparr>vy := newY c\<rparr>)
          in s\<lparr>eulerRef := e,
               cameraRef := Some (camera\<lparr>quaternion := e, cam_position := pos\<rparr>),
               playerVelocity := (playerVelocity s)\<lparr>vy := velY c\<rparr>,
               playerOnGround := onGround c\<rparr>))"

section \<open>Pointer interaction\<close>

text \<open>The raycast that highlightBlockAtPosition, destroyBlockAtPosition and
  addBlockAtPosition each perform: screen point to normalised device coordinates, then the
  intersections with all block meshes. A window of width or height 0 makes the source divide
  by zero; the coordinates only reach the library's raycaster, about which nothing is
  assumed.\<close>

definition raycastAt :: "Lib \<Rightarrow> Camera \<Rightarrow> real \<Rightarrow> real \<Rightarrow> Block list \<Rightarrow> Intersection list" where
  "raycastAt lib camera x y bs =
     (let normalizedX = fl (fl (fl (x / window_width lib) * 2) - 1);
          normalizedY = fl (fl (- fl (y / window_height lib) * 2) + 1)
      in cameraIntersectObjects lib camera normalizedX normalizedY (map mesh bs))"

text \<open>\<open>blocks.current.find((block) => block.mesh === clickedMesh)\<close>\<close>

definition findBlock :: "nat \<Rightarrow> Block list \<Rightarrow> Block option" where
  "findBlock clickedMesh bs = find (\<lambda>block. mesh_id (mesh block) = clickedMesh) bs"

text \<open>highlightBlock: of its effects only the reference to the highlighted block is state
  of the model (the edge lines are display objects).\<close>

definition highlightBlock :: "Block \<Rightarrow> App \<Rightarrow> App" where
  "highlightBlock block s = s\<lparr>highlightedBlockRef := Some (mesh_id (mesh block))\<rparr>"

definition highlightBlockAtPosition :: "Lib \<Rightarrow> real \<Rightarrow> real \<Rightarrow> App \<Rightarrow> App" where
  "highlightBlockAtPosition lib x y s =
     (case cameraRef s of
        None \<Rightarrow> s
      | Some camera \<Rightarrow>
         (case raycastAt lib camera x y (blocks (world s)) of
            [] \<Rightarrow> s
          | i # _ \<Rightarrow>
             (case findBlock (object i) (blocks (world s)) of
                None \<Rightarrow> s
              | Some clickedBlock \<Rightarrow> highlightBlock clickedBlock s)))"

definition destroyBlockAtPosition :: "Lib \<Rightarrow> real \<Rightarrow> real \<Rightarrow> App \<Rightarrow> App" where
  "destroyBlockAtPosition lib x y s =
     (case cameraRef s of
        None \<Rightarrow> s
      | Some camera \<Rightarrow>
         (let s1 = s\<lparr>isDestructionInProgress := False, destructionProgress := Settled 0\<rparr>
          in case raycastAt lib camera x y (blocks (world s1)) of
               [] \<Rightarrow> s1
             | i # _ \<Rightarrow>
                (case findBlock (object i) (blocks (world s1)) of
                   None \<Rightarrow> s1
                 | Some clickedBlock \<Rightarrow>
                     s1\<lparr>world := (world s1)\<lparr>blocks :=
                            filter (\<lambda>block. mesh_id (mesh block) \<noteq> mesh_id (mesh clickedBlock))
                              (blocks (world s1))\<rparr>,
                        highlightedBlockRef :=
                          (if highlightedBlockRef s1 = Some (mesh_id (mesh clickedBlock)) then None
                           else highlightedBlockRef s1)\<rparr>)))"

text \<open>Reading \<open>inventory[selectedBlockIndex].count\<close> with an index outside the array throws a
  TypeError in the source.\<close>

datatype Error = TypeError

definition addBlockAtPosition :: "Lib \<Rightarrow> real \<Rightarrow> real \<Rightarrow> App \<Rightarrow> Error + App" where
  "addBlockAtPosition lib x y s =
     (case cameraRef s of
        None \<Rightarrow> Inr s
      | Some camera \<Rightarrow>
         if selectedBlockIndex s \<ge> length (inventory s) then Inl TypeError
         else if count (inventory s ! selectedBlockIndex s) \<le> 0 then Inr s
         else
          (case raycastAt lib camera x y (blocks (world s)) of
             [] \<Rightarrow> Inr s
           | i # _ \<Rightarrow>
              (case findBlock (object i) (blocks (world s)) of
                 None \<Rightarrow> Inr s
               | Some clickedBlock \<Rightarrow>
                  (case face i of
                     None \<Rightarrow> Inr s
                   | Some n \<Rightarrow>
                      (let normal = transformDirection lib n (mesh clickedBlock);
                           newPosition = add (position clickedBlock) (multiplyScalar normal BLOCK_SIZE);
                           blockExists = list_ex (\<lambda>block.
                               vx (position block) = vx newPosition \<and>
                               vy (position block) = vy newPosition \<and>
                               vz (position block) = vz newPosition) (blocks (world s))
                       in if \<not> blockExists
                          then (let selectedBlockType = slot_type (inventory s ! selectedBlockIndex s);
                                    w = createBlock newPosition selectedBlockType (world s);
                                    slot = inventory s ! selectedBlockIndex s;
                                    updatedInventory =
                                      (if count slot > 0
                                       then (inventory s)[selectedBlockIndex s := slot\<lparr>count := count slot - 1\<rparr>]
                                       else inventory s)
                                in Inr (s\<lparr>world := w, inventory := updatedInventory\<rparr>))
                          else Inr s)))))"

definition startDestructionProgress :: "Lib \<Rightarrow> real \<Rightarrow> real \<Rightarrow> App \<Rightarrow> App" where
  "startDestructionProgress lib x y s =
     (let s1 = s\<lparr>isDestructionInProgress := True, destructionProgress := Settled 0\<rparr>;
          s2 = highlightBlockAtPosition lib x y s1
      in s2\<lparr>destructionProgress := Timing 1 800 0 (DestroyAt x y)\<rparr>)"

text \<open>cancelDestructionProgress: \<open>cancelAnimation\<close> drops the running animation, whose callback
  is then called with \<open>finished = false\<close> and does nothing.\<close>

definition cancelDestructionProgress :: "App \<Rightarrow> App" where
  "cancelDestructionProgress s =
     (if isDestructionInProgress s
      then s\<lparr>destructionProgress := Timing 0 200 0 NoCallback, isDestructionInProgress := False\<rparr>
      else s)"

definition handleBlockSelection :: "Lib \<Rightarrow> real \<Rightarrow> real \<Rightarrow> nat \<Rightarrow> App \<Rightarrow> Error + App" where
  "handleBlockSelection lib touchX touchY st s =
     (case cameraRef s of
        None \<Rightarrow> Inr s
      | Some camera \<Rightarrow>
         if st = 5
         then (if selectedBlockIndex s \<ge> length (inventory s) then Inl TypeError
               else if count (inventory s ! selectedBlockIndex s) > 0
                    then addBlockAtPosition lib touchX touchY s
                    else Inr (highlightBlockAtPosition lib touchX touchY s))
         else Inr (highlightBlockAtPosition lib touchX touchY s))"

definition startCameraPan :: "App \<Rightarrow> App" where
  "startCameraPan s = s\<lparr>isPanning := True\<rparr>"

definition stopCameraPan :: "App \<Rightarrow> App" where
  "stopCameraPan s = s\<lparr>isPanning := False, moveState := (moveState s)\<lparr>rotateX := 0, rotateY := 0\<rparr>\<rparr>"

definition selectBlockFromInventory :: "nat \<Rightarrow> App \<Rightarrow> Error + App" where
  "selectBlockFromInventory index s =
     (if index < length (inventory s) then Inr (s\<lparr>selectedBlockIndex := index\<rparr>) else Inl TypeError)"

text \<open>The passing of \<open>dt\<close> milliseconds for the animation of \<open>destructionProgress\<close>: an
  animation that has run for its whole duration settles on its target and its callback is
  called with \<open>finished = true\<close>.\<close>

definition elapse :: "Lib \<Rightarrow> nat \<Rightarrow> App \<Rightarrow> App" where
  "elapse lib dt s =
     (case destructionProgress s of
        Settled v \<Rightarrow> s
      | Timing target duration elapsed callback \<Rightarrow>
          if elapsed + dt \<ge> duration
          then (let s1 = s\<lparr>destructionProgress := Settled target\<rparr>
                in case callback of
                     NoCallback \<Rightarrow> s1
                   | DestroyAt x y \<Rightarrow> destroyBlockAtPosition lib x y s1)
          else s\<lparr>destructionProgress := Timing target duration (elapsed + dt) callback\<rparr>)"

text \<open>onContextCreate: the camera is created and placed, the terrain generated.\<close>

definition onContextCreate :: "App \<Rightarrow> App" where
  "onContextCreate s =
     s\<lparr>cameraRef := Some \<lparr>cam_position = \<lparr>vx = real_of_int WORLD_SIZE / 2, vy = 5, vz = real_of_int WORLD_SIZE / 2\<rparr>,
                          quaternion = \<lparr>euler_x = 0, euler_y = 0\<rparr>\<rparr>,
       world := generateTerrain (world s)\<rparr>"

section \<open>The events the component receives\<close>

text \<open>One constructor for each callback wired up in the JSX: the GL context, the animation
  frame, the joystick, the jump button, the pan, tap and long-press gestures (with the
  gesture state the handler reads), the inventory cells, and the passing of time.\<close>

datatype Event =
    ContextCreate
  | Frame
  | JoystickMove real real
  | JoystickRelease
  | JumpButton bool
  | PanStart
  | PanUpdate real real
  | PanEnd
  | TapEnd real real nat
  | LongPressBegin real real nat
  | LongPressStart real real
  | LongPressEnd real real nat
  | LongPressFinalize
  | InventoryPress nat
  | Elapse nat

fun step :: "Lib \<Rightarrow> Event \<Rightarrow> App \<Rightarrow> Error + App" where
  "step lib ContextCreate s = Inr (onContextCreate s)"
| "step lib Frame s = Inr (updatePlayerPosition lib s)"
| "step lib (JoystickMove x y) s = Inr (handleMovementJoystick x y s)"
| "step lib JoystickRelease s = Inr (handleJoystickRelease s)"
| "step lib (JumpButton v) s = Inr (handleJump v s)"
| "step lib PanStart s = Inr (startCameraPan s)"
| "step lib (PanUpdate x y) s = Inr (handleCameraPan x y s)"
| "step lib PanEnd s = Inr (stopCameraPan s)"
| "step lib (TapEnd x y st) s = handleBlockSelection lib x y st s"
| "step lib (LongPressBegin x y st) s = handleBlockSelection lib x y st s"
| "step lib (LongPressStart x y) s = Inr (startDestructionProgress lib x y s)"
| "step lib (LongPressEnd x y st) s =
     Inr (if st = 5 then destroyBlockAtPosition lib x y s else cancelDestructionProgress s)"
| "step lib LongPressFinalize s = Inr (cancelDestructionProgress s)"
| "step lib (InventoryPress i) s = selectBlockFromInventory i s"
| "step lib (Elapse dt) s = Inr (elapse lib dt s)"

text \<open>A sequence of events; an exception ends it.\<close>

fun run :: "Lib \<Rightarrow> Event list \<Rightarrow> App \<Rightarrow> Error + App" where
  "run lib [] s = Inr s"
| "run lib (e # es) s = (case step lib e s of Inl err \<Rightarrow> Inl err | Inr s' \<Rightarrow> run lib es s')"

section \<open>Observations of a world used in the statements below\<close>

text \<open>What the claims observe of a block: its position and type.\<close>

definition sig :: "Block \<Rightarrow> Vector3 \<times> BlockType" where
  "sig b = (position b, type b)"

text \<open>The blocks of the terrain layers, as opposed to those of trees.\<close>

definition isTerrain :: "Block \<Rightarrow> bool" where
  "isTerrain b = (type b \<noteq> wood \<and> type b \<noteq> leaves)"

definition terrainSigs :: "World \<Rightarrow> (Vector3 \<times> BlockType) list" where
  "terrainSigs w = map sig (filter isTerrain (blocks w))"

text \<open>The column above grid coordinates \<open>(x, z)\<close>.\<close>

definition inColumn :: "int \<Rightarrow> int \<Rightarrow> Block \<Rightarrow> bool" where
  "inColumn x z b =
     (vx (position b) = real_of_int x * BLOCK_SIZE \<and> vz (position b) = real_of_int z * BLOCK_SIZE)"

definition bedrockIn :: "int \<Rightarrow> int \<Rightarrow> Vector3 \<times> BlockType \<Rightarrow> bool" where
  "bedrockIn x z s =
     (snd s = bedrock \<and> vx (fst s) = real_of_int x * BLOCK_SIZE \<and> vz (fst s) = real_of_int z * BLOCK_SIZE)"

text \<open>The block that a raycast from screen point \<open>(x, y)\<close> picks, with the intersection:
  the first (nearest) intersection's mesh, looked up in the registry. This is the common
  first part of highlightBlockAtPosition, destroyBlockAtPosition and addBlockAtPosition.\<close>

definition pickBlock :: "Lib \<Rightarrow> real \<Rightarrow> real \<Rightarrow> App \<Rightarrow> (Block \<times> Intersection) option" where
  "pickBlock lib x y s =
     (case cameraRef s of
        None \<Rightarrow> None
      | Some camera \<Rightarrow>
         (case raycastAt lib camera x y (blocks (world s)) of
            [] \<Rightarrow> None
          | i # _ \<Rightarrow>
             (case findBlock (object i) (blocks (world s)) of
                None \<Rightarrow> None
              | Some clickedBlock \<Rightarrow> Some (clickedBlock, i))))"

text \<open>The face normals of a box geometry, in the mesh's local space.\<close>

definition axisNormals :: "Vector3 list" where
  "axisNormals =
     [\<lparr>vx = 1, vy = 0, vz = 0\<rparr>, \<lparr>vx = - 1, vy = 0, vz = 0\<rparr>,
      \<lparr>vx = 0, vy = 1, vz = 0\<rparr>, \<lparr>vx = 0, vy = - 1, vz = 0\<rparr>,
      \<lparr>vx = 0, vy = 0, vz = 1\<rparr>, \<lparr>vx = 0, vy = 0, vz = - 1\<rparr>]"

text \<open>Whether some block of the registry is at position \<open>p\<close>.\<close>

definition occupied :: "Vector3 \<Rightarrow> App \<Rightarrow> bool" where
  "occupied p s = list_ex (\<lambda>block. position block = p) (blocks (world s))"

text \<open>No two blocks of the registry are the same object.\<close>

definition distinctMeshes :: "World \<Rightarrow> bool" where
  "distinctMeshes w =
     (distinct (map (\<lambda>block. mesh_id (mesh block)) (blocks w)) \<and>
      list_all (\<lambda>block. mesh_id (mesh block) < nextMeshId w) (blocks w))"


text \<open>The time, in ms, that passes in a sequence of events.\<close>

fun msOf :: "Event \<Rightarrow> nat" where
  "msOf (Elapse dt) = dt"
| "msOf e = 0"

definition elapsedOf :: "Event list \<Rightarrow> nat" where
  "elapsedOf es = sum_list (map msOf es)"



text \<open>No slot of the inventory has a negative count.\<close>

definition countsNonNegative :: "App \<Rightarrow> bool" where
  "countsNonNegative s = list_all (\<lambda>slot. 0 \<le> count slot) (inventory s)"

text \<open>The sum of the directions of the active intents, before it is normalised and scaled.\<close>

definition intentSum :: "Vector3 \<Rightarrow> Vector3 \<Rightarrow> MoveState \<Rightarrow> Vector3" where
  "intentSum forwardV rightV ms =
     (let m0 = \<lparr>vx = 0, vy = 0, vz = 0\<rparr>;
          m1 = (if forward ms then add m0 forwardV else m0);
          m2 = (if backward ms then sub m1 forwardV else m1);
          m3 = (if left ms then sub m2 rightV else m2)
      in (if right ms then add m3 rightV else m3))"

text \<open>The only fact about the noise function that the proofs use: \<open>(sin a + sin b) * 0.5 + 0.5\<close>
  is at least \<open>- 1 / 2\<close>, so a sample of amplitude \<open>a\<close> is at least \<open>- a / 2\<close>.\<close>

definition noise_lower :: "(real \<Rightarrow> real \<Rightarrow> real \<Rightarrow> real \<Rightarrow> real) \<Rightarrow> bool" where
  "noise_lower nz = (\<forall>x z s a. 0 \<le> a \<longrightarrow> - (a / 2) \<le> nz x z s a)"

text \<open>The positions and types that one pass of the column loop body creates for the terrain
  layers, in the order of creation.\<close>

definition columnSigs ::
  "(real \<Rightarrow> real \<Rightarrow> real \<Rightarrow> real \<Rightarrow> real) \<Rightarrow> (real \<Rightarrow> real \<Rightarrow> real \<Rightarrow> real) \<Rightarrow> int \<Rightarrow> int \<Rightarrow> (Vector3 \<times> BlockType) list" where
  "columnSigs nz n3 x z =
     (cell x (heightOf nz x z) z, topBlockTypeOf nz x z) #
     map (\<lambda>y. (cell x (heightOf nz x z - y) z, dirt)) [1 .. dirtDepthOf nz x z] @
     map (\<lambda>y. (cell x (heightOf nz x z - y) z, fillBlockTypeOf n3 x y z))
       [dirtDepthOf nz x z + 1 .. \<bar>bedrockLevel - heightOf nz x z\<bar>] @
     [(cell x bedrockLevel z, bedrock)]"

section \<open>A small world for concrete evaluation\<close>

text \<open>One grass block at the origin, turned by a quarter (\<open>rotation.y = Math.PI / 2\<close>),
  seen from a camera five units above it; the inventory is the initial one. The library
  functions are the simplest ones: the camera is not turned, the box of a mesh is the unit
  cube around its position, the ground ray hits nothing, and a ray from the camera hits every
  mesh on its top face, in the order given. \<open>Math.sin\<close> and \<open>Math.cos\<close> return, at the
  half angles of the four rotations that \<open>createBlock\<close> can set, the doubles nearest to the
  sine and the cosine.\<close>

definition exampleSin :: "real \<Rightarrow> real" where
  "exampleSin x =
     (if x = 884279719003555 / 2 ^ 50 then 1592262918131443 / 2 ^ 51
      else if x = 884279719003555 / 2 ^ 49 then 1
      else if x = 2652839157010665 / 2 ^ 50 then 6369051672525773 / 2 ^ 53
      else 0)"

definition exampleCos :: "real \<Rightarrow> real" where
  "exampleCos x =
     (if x = 884279719003555 / 2 ^ 50 then 6369051672525773 / 2 ^ 53
      else if x = 884279719003555 / 2 ^ 49 then 4967757600021511 / 2 ^ 106
      else if x = 2652839157010665 / 2 ^ 50 then - (1592262918131443 / 2 ^ 51)
      else 1)"

definition exampleBlock :: Block where
  "exampleBlock =
     \<lparr>position = \<lparr>vx = 0, vy = 0, vz = 0\<rparr>, type = grass,
      mesh = \<lparr>mesh_id = 0, mesh_position = \<lparr>vx = 0, vy = 0, vz = 0\<rparr>,
              rotation_y = Math_PI / 2\<rparr>\<rparr>"

text \<open>A second block, on top of the first.\<close>

definition exampleUpperBlock :: Block where
  "exampleUpperBlock =
     \<lparr>position = \<lparr>vx = 0, vy = 1, vz = 0\<rparr>, type = stone,
      mesh = \<lparr>mesh_id = 1, mesh_position = \<lparr>vx = 0, vy = 1, vz = 0\<rparr>, rotation_y = 0\<rparr>\<rparr>"

definition exampleLib :: Lib where
  "exampleLib =
     \<lparr>applyQuaternion = (\<lambda>e v. v),
      setFromObject = (\<lambda>m. setFromCenterAndSize (mesh_position m) \<lparr>vx = 1, vy = 1, vz = 1\<rparr>),
      rayIntersectObject = (\<lambda>origin direction near far m. []),
      cameraIntersectObjects = (\<lambda>camera nx ny ms.
         map (\<lambda>m. \<lparr>object = mesh_id m, face = Some \<lparr>vx = 0, vy = 1, vz = 0\<rparr>\<rparr>) ms),
      window_width = 400,
      window_height = 800,
      Math_sin = exampleSin,
      Math_cos = exampleCos\<rparr>"


text \<open>The same library with a camera ray that hits every mesh on the face whose local
  normal is \<open>(- 1, 0, 0)\<close>.\<close>

definition exampleSideLib :: Lib where
  "exampleSideLib = exampleLib\<lparr>cameraIntersectObjects := (\<lambda>camera nx ny ms.
         map (\<lambda>m. \<lparr>object = mesh_id m, face = Some \<lparr>vx = - 1, vy = 0, vz = 0\<rparr>\<rparr>) ms)\<rparr>"

definition exampleApp :: App where
  "exampleApp =
     (initialApp (\<lambda>n. 0))
       \<lparr>world := \<lparr>blocks = [exampleBlock], nextMeshId = 1, randomStream = (\<lambda>n. 0), randomDrawn = 0\<rparr>,
        cameraRef := Some \<lparr>cam_position = \<lparr>vx = 0, vy = 5, vz = 0\<rparr>,
                           quaternion = \<lparr>euler_x = 0, euler_y = 0\<rparr>\<rparr>\<rparr>"


text \<open>The small world with the second block, which is not turned, in place of the first.\<close>

definition exampleUnturnedApp :: App where
  "exampleUnturnedApp = exampleApp\<lparr>world := (world exampleApp)\<lparr>blocks := [exampleUpperBlock], nextMeshId := 2\<rparr>\<rparr>"

text \<open>The small world after its block has been destroyed under the standing player.\<close>

definition exampleEmptyApp :: App where
  "exampleEmptyApp = exampleApp\<lparr>world := (world exampleApp)\<lparr>blocks := []\<rparr>, playerOnGround := True\<rparr>"

text \<open>The small world with a single inventory slot holding one grass block.\<close>

definition exampleLastBlockApp :: App where
  "exampleLastBlockApp = exampleApp\<lparr>inventory := [\<lparr>slot_type = grass, count = 1\<rparr>]\<rparr>"

section \<open>Rounding to doubles\<close>

text \<open>The value of \<open>fl\<close> at a number of known binade, the error of \<open>fl\<close>, and the numbers it
  leaves unchanged.\<close>

lemma roundEven_unique:
  assumes "of_int n - 1 / 2 < r" "r < of_int n + 1 / 2"
  shows "roundEven r = n"
proof -
  have "\<lfloor>r\<rfloor> = n \<or> \<lfloor>r\<rfloor> = n - 1" using assms by linarith
  then show ?thesis
  proof
    assume f: "\<lfloor>r\<rfloor> = n"
    then show ?thesis using assms by (simp add: roundEven_def Let_def)
  next
    assume f: "\<lfloor>r\<rfloor> = n - 1"
    then have "r - of_int (n - 1) > 1 / 2" using assms by simp
    then show ?thesis using f assms by (simp add: roundEven_def Let_def)
  qed
qed

lemma roundEven_err: "\<bar>of_int (roundEven r) - r\<bar> \<le> 1 / 2"
proof -
  have "of_int \<lfloor>r\<rfloor> \<le> r" "r < of_int \<lfloor>r\<rfloor> + 1" by linarith+
  then show ?thesis by (auto simp add: roundEven_def Let_def)
qed

lemma powi_eq_powr: "(2::real) powi e = 2 powr (of_int e)"
  by (simp add: powr_real_of_int' power_int_def)

lemma binade_unique:
  assumes "2 powi e \<le> a" "a < 2 powi (e + 1)"
  shows "\<lfloor>log 2 a\<rfloor> = e"
proof -
  have "(0::real) < 2 powi e" by simp
  then have pos: "0 < a" using assms(1) by linarith
  have "of_int e \<le> log 2 a"
    using assms(1) pos by (simp add: powi_eq_powr le_log_iff)
  moreover have "log 2 a < of_int (e + 1)"
    using assms(2) pos by (simp add: powi_eq_powr log_less_iff del: of_int_add)
  ultimately show ?thesis by (intro floor_unique) simp_all
qed

lemma binade_lower:
  assumes "0 < a"
  shows "2 powi \<lfloor>log 2 a\<rfloor> \<le> a"
proof -
  have "2 powr (of_int \<lfloor>log 2 a\<rfloor>) \<le> a"
    by (subst le_log_iff [symmetric]) (use assms in simp_all)
  then show ?thesis by (simp add: powi_eq_powr)
qed

lemma quantum_pos: "0 < quantum x"
  by (simp add: quantum_def)

lemma quantum_eval:
  assumes "2 powi e \<le> \<bar>x\<bar>" "\<bar>x\<bar> < 2 powi (e + 1)" "- 1022 \<le> e"
  shows "quantum x = 2 powi (e - 52)"
  using binade_unique [OF assms(1,2)] assms(3) by (simp add: quantum_def emin_def)

lemma fl_eval:
  assumes "2 powi e \<le> \<bar>x\<bar>" "\<bar>x\<bar> < 2 powi (e + 1)" "- 1022 \<le> e"
    and "of_int n - 1 / 2 < x / 2 powi (e - 52)" "x / 2 powi (e - 52) < of_int n + 1 / 2"
  shows "fl x = of_int n * 2 powi (e - 52)"
proof -
  have "(0::real) < 2 powi e" by simp
  then have "x \<noteq> 0" using assms(1) by linarith
  then show ?thesis
    by (simp add: fl_def quantum_eval [OF assms(1-3)] roundEven_unique [OF assms(4,5)])
qed

lemma fl_zero [simp]: "fl 0 = 0"
  by (simp add: fl_def)

lemma fl_err: "\<bar>fl x - x\<bar> \<le> quantum x / 2"
proof (cases "x = 0")
  case True
  then show ?thesis using quantum_pos [of 0] by simp
next
  case False
  let ?q = "quantum x"
  have q: "0 < ?q" by (rule quantum_pos)
  have "fl x - x = (of_int (roundEven (x / ?q)) - x / ?q) * ?q"
    using False q by (simp add: fl_def algebra_simps)
  then have "\<bar>fl x - x\<bar> = \<bar>of_int (roundEven (x / ?q)) - x / ?q\<bar> * ?q"
    using q by (simp add: abs_mult)
  also have "\<dots> \<le> (1 / 2) * ?q"
    using roundEven_err [of "x / ?q"] q by (intro mult_right_mono) simp_all
  finally show ?thesis by simp
qed

lemma quantum_le:
  assumes "x \<noteq> 0"
  shows "quantum x \<le> \<bar>x\<bar> / 2 ^ 52 \<or> quantum x = 2 powi (emin - 52)"
proof (cases "\<lfloor>log 2 \<bar>x\<bar>\<rfloor> \<le> emin")
  case True
  then show ?thesis by (simp add: quantum_def max_def)
next
  case False
  have x: "0 < \<bar>x\<bar>" using assms by simp
  have "quantum x = 2 powi (\<lfloor>log 2 \<bar>x\<bar>\<rfloor> - 52)" using False by (simp add: quantum_def max_def)
  also have "\<dots> = 2 powi \<lfloor>log 2 \<bar>x\<bar>\<rfloor> / 2 ^ 52"
    by (simp add: power_int_diff)
  also have "\<dots> \<le> \<bar>x\<bar> / 2 ^ 52"
    using binade_lower [OF x] by (simp add: divide_right_mono)
  finally show ?thesis by simp
qed

lemma fl_error: "\<bar>fl x - x\<bar> \<le> \<bar>x\<bar> / 2 ^ 53 + 2 powi (emin - 53)"
proof (cases "x = 0")
  case True
  then show ?thesis by simp
next
  case False
  have h: "2 powi (emin - 52) / 2 = (2::real) powi (emin - 53)"
    by (simp add: power_int_diff)
  have p: "(0::real) < 2 powi (emin - 53)" by simp
  from quantum_le [OF False] show ?thesis
  proof
    assume "quantum x \<le> \<bar>x\<bar> / 2 ^ 52"
    then have "quantum x / 2 \<le> \<bar>x\<bar> / 2 ^ 53" by simp
    with fl_err [of x] p show ?thesis by linarith
  next
    assume "quantum x = 2 powi (emin - 52)"
    then have "quantum x / 2 = 2 powi (emin - 53)" using h by simp
    with fl_err [of x] show ?thesis by simp
  qed
qed

lemma fl_rel:
  assumes "x = 0 \<or> 2 powi emin \<le> \<bar>x\<bar>"
  shows "\<bar>fl x - x\<bar> \<le> \<bar>x\<bar> / 2 ^ 53"
proof (cases "x = 0")
  case True
  then show ?thesis by simp
next
  case False
  then have n: "2 powi emin \<le> \<bar>x\<bar>" using assms by simp
  have x: "0 < \<bar>x\<bar>" using False by simp
  have "of_int emin \<le> log 2 \<bar>x\<bar>"
    using n x by (simp add: powi_eq_powr le_log_iff)
  then have e: "emin \<le> \<lfloor>log 2 \<bar>x\<bar>\<rfloor>" by (simp add: le_floor_iff)
  have "quantum x = 2 powi (\<lfloor>log 2 \<bar>x\<bar>\<rfloor> - 52)" using e by (simp add: quantum_def max_def)
  also have "\<dots> = 2 powi \<lfloor>log 2 \<bar>x\<bar>\<rfloor> / 2 ^ 52"
    by (simp add: power_int_diff)
  also have "\<dots> \<le> \<bar>x\<bar> / 2 ^ 52"
    using binade_lower [OF x] by (simp add: divide_right_mono)
  finally have "quantum x / 2 \<le> \<bar>x\<bar> / 2 ^ 53" by simp
  then show ?thesis using fl_err [of x] by linarith
qed

lemma tiny_le: "(2::real) powi (emin - 53) \<le> 1 / 2 ^ 100"
proof -
  have "(2::real) powi (emin - 53) \<le> 2 powi (- 100)"
    by (rule power_int_increasing) (simp_all add: emin_def)
  then show ?thesis by (simp add: power_int_minus_divide)
qed


lemma binade_upper:
  assumes "0 < a"
  shows "a < 2 powi (\<lfloor>log 2 a\<rfloor> + 1)"
proof -
  have "log 2 a < of_int (\<lfloor>log 2 a\<rfloor> + 1)" by linarith
  then have "a < 2 powr (of_int (\<lfloor>log 2 a\<rfloor> + 1))"
    using assms by (subst (asm) log_less_iff) simp_all
  then show ?thesis by (simp only: powi_eq_powr)
qed

lemma roundEven_of_int [simp]: "roundEven (of_int n) = n"
  by (rule roundEven_unique) simp_all

lemma roundEven_minus: "roundEven (- r) = - roundEven r"
proof (cases "r = of_int \<lfloor>r\<rfloor>")
  case True
  then obtain n where "r = of_int n" by blast
  then have "- r = of_int (- n)" by simp
  then show ?thesis unfolding \<open>r = of_int n\<close> by (metis roundEven_of_int)
next
  case False
  then have lt: "of_int \<lfloor>r\<rfloor> < r" "r < of_int \<lfloor>r\<rfloor> + 1" 
    using of_int_floor_le [of r] by linarith+
  then have f: "\<lfloor>- r\<rfloor> = - \<lfloor>r\<rfloor> - 1" by linarith
  show ?thesis
    using lt by (auto simp add: roundEven_def Let_def f)
qed

lemma quantum_minus [simp]: "quantum (- x) = quantum x"
  by (simp add: quantum_def)

lemma fl_minus: "fl (- x) = - fl x"
  by (simp add: fl_def roundEven_minus)

lemma fl_integral:
  assumes "x \<noteq> 0" "x / quantum x = of_int j"
  shows "fl x = x"
  using assms quantum_pos [of x] by (simp add: fl_def) (metis nonzero_eq_divide_eq less_irrefl mult.commute)


lemma binade_less:
  assumes "0 < a" "a < 2 powi m"
  shows "\<lfloor>log 2 a\<rfloor> < m"
proof (rule ccontr)
  assume "\<not> \<lfloor>log 2 a\<rfloor> < m"
  then have "(2::real) powi m \<le> 2 powi \<lfloor>log 2 a\<rfloor>"
    by (intro power_int_increasing) simp_all
  with binade_lower [OF assms(1)] assms(2) show False by linarith
qed

lemma fl_representable:
  assumes "\<bar>n\<bar> \<le> 2 ^ 53" "emin - 52 \<le> k"
  shows "fl (of_int n * 2 powi k) = of_int n * 2 powi k"
proof (cases "n = 0")
  case True
  then show ?thesis by simp
next
  case False
  let ?y = "real_of_int n * 2 powi k"
  have y0: "?y \<noteq> 0" using False by simp
  have ay: "\<bar>?y\<bar> = of_int \<bar>n\<bar> * 2 powi k" by (simp add: abs_mult)
  have pos: "0 < \<bar>?y\<bar>" using y0 by simp
  show ?thesis
  proof (cases "\<bar>n\<bar> = 2 ^ 53")
    case True
    have "\<bar>?y\<bar> = 2 powi 53 * 2 powi k" unfolding ay True by simp
    also have "\<dots> = 2 powi (k + 53)" by (simp add: power_int_add)
    finally have e: "\<bar>?y\<bar> = 2 powi (k + 53)" .
    have "(2::real) powi (k + 53) < 2 powi (k + 53 + 1)"
      by (intro power_int_strict_increasing) simp_all
    then have b: "\<lfloor>log 2 \<bar>?y\<bar>\<rfloor> = k + 53"
      by (intro binade_unique) (simp_all add: e)
    have q: "quantum ?y = 2 powi (k + 1)"
    proof -
      have "max (k + 53) emin - 52 = k + 1" using assms(2) by simp
      then show ?thesis by (simp only: quantum_def b)
    qed
    have "2 powi (k + 1) = (2::real) powi k * 2" by (simp add: power_int_add)
    then have "?y / quantum ?y = of_int n / 2" by (simp add: q)
    moreover have "even n" using True by (metis even_abs_add_iff even_add even_numeral even_power zero_less_numeral)
    ultimately have "?y / quantum ?y = of_int (n div 2)" by (simp add: real_of_int_div)
    then show ?thesis by (rule fl_integral [OF y0])
  next
    case False
    then have "\<bar>n\<bar> < 2 ^ 53" using assms(1) by simp
    then have "real_of_int \<bar>n\<bar> < 2 ^ 53" by (metis of_int_less_iff of_int_numeral of_int_power)
    then have "\<bar>?y\<bar> < 2 powi 53 * 2 powi k" unfolding ay by (intro mult_strict_right_mono) simp_all
    also have "\<dots> = 2 powi (k + 53)" by (simp add: power_int_add)
    finally have "\<lfloor>log 2 \<bar>?y\<bar>\<rfloor> < k + 53" by (rule binade_less [OF pos])
    then have le: "max \<lfloor>log 2 \<bar>?y\<bar>\<rfloor> emin - 52 \<le> k" using assms(2) by simp
    define e where "e = max \<lfloor>log 2 \<bar>?y\<bar>\<rfloor> emin - 52"
    have q: "quantum ?y = 2 powi e" by (simp add: quantum_def e_def)
    have "(2::real) powi k / 2 powi e = 2 powi (k - e)" by (simp add: power_int_diff)
    also have "\<dots> = 2 ^ nat (k - e)" using le by (simp add: e_def power_int_def)
    finally have d: "(2::real) powi k / 2 powi e = 2 ^ nat (k - e)" .
    have "?y / quantum ?y = of_int n * (2 powi k / 2 powi e)" by (simp add: q)
    then have "?y / quantum ?y = of_int (n * 2 ^ nat (k - e))" by (simp only: d of_int_mult of_int_power of_int_numeral)
    then show ?thesis by (rule fl_integral [OF y0])
  qed
qed

lemma roundEven_bound:
  assumes "\<bar>r\<bar> < of_int m"
  shows "\<bar>roundEven r\<bar> \<le> m"
  using roundEven_err [of r] assms by linarith

lemma fl_idem [simp]: "fl (fl x) = fl x"
proof (cases "x = 0")
  case True
  then show ?thesis by simp
next
  case False
  define e where "e = max \<lfloor>log 2 \<bar>x\<bar>\<rfloor> emin"
  have q: "quantum x = 2 powi (e - 52)" by (simp add: quantum_def e_def)
  have "\<bar>x\<bar> < 2 powi (\<lfloor>log 2 \<bar>x\<bar>\<rfloor> + 1)" using False by (intro binade_upper) simp
  also have "\<dots> \<le> 2 powi (e + 1)" by (intro power_int_increasing) (simp_all add: e_def)
  finally have "\<bar>x\<bar> < 2 powi (e + 1)" .
  moreover have "(2::real) powi (e + 1) = 2 ^ 53 * 2 powi (e - 52)"
    by (simp add: power_int_add power_int_diff)
  ultimately have "\<bar>x / 2 powi (e - 52)\<bar> < 2 ^ 53"
    by (simp add: abs_divide pos_divide_less_eq)
  then have "\<bar>x / 2 powi (e - 52)\<bar> < of_int (2 ^ 53)" by simp
  then have n: "\<bar>roundEven (x / 2 powi (e - 52))\<bar> \<le> 2 ^ 53" by (rule roundEven_bound)
  have "emin - 52 \<le> e - 52" by (simp add: e_def)
  from fl_representable [OF n this] show ?thesis using False by (simp add: fl_def q)
qed

lemma fl_one [simp]: "fl 1 = 1"
  using fl_representable [of 1 0] by (simp add: emin_def)

lemma fl_numeral_int:
  assumes "\<bar>n\<bar> \<le> 2 ^ 53"
  shows "fl (of_int n) = of_int n"
  using fl_representable [OF assms, of 0] by (simp add: emin_def)

section \<open>Terrain generation: what it creates\<close>

lemma noise_lower_noise: "noise_lower noise"
proof -
  have "- (a / 2) \<le> ((sin u + sin v) * 0.5 + 0.5) * a" if "0 \<le> a" for u v a :: real
  proof -
    have "- 2 \<le> sin u + sin v"
      using sin_ge_minus_one [of u] sin_ge_minus_one [of v] by linarith
    then have "- (1 / 2) \<le> (sin u + sin v) * 0.5 + 0.5" by argo
    then have "- (1 / 2) * a \<le> ((sin u + sin v) * 0.5 + 0.5) * a"
      using that by (rule mult_right_mono)
    then show ?thesis by simp
  qed
  then show ?thesis
    by (simp add: noise_lower_def noise_def Let_def)
qed

lemma terrainSigs_randomDrawn: "terrainSigs (w\<lparr>randomDrawn := n\<rparr>) = terrainSigs w"
  by (simp add: terrainSigs_def)

lemma terrainSigs_createBlock:
  "terrainSigs (createBlock p t w) = terrainSigs w @ (if t \<noteq> wood \<and> t \<noteq> leaves then [(p, t)] else [])"
  by (simp add: terrainSigs_def createBlock_def Math_random_def sig_def isTerrain_def Let_def)

lemma terrainSigs_fold_createBlock:
  "\<forall>y. T y \<noteq> wood \<and> T y \<noteq> leaves \<Longrightarrow>
   terrainSigs (fold (\<lambda>y. createBlock (P y) (T y)) ys w) = terrainSigs w @ map (\<lambda>y. (P y, T y)) ys"
  by (induction ys arbitrary: w) (simp_all add: terrainSigs_createBlock)

lemma terrainSigs_fold_same:
  "(\<And>y w. terrainSigs (f y w) = terrainSigs w) \<Longrightarrow> terrainSigs (fold f ys w) = terrainSigs w"
  by (induction ys arbitrary: w) simp_all

lemma terrainSigs_leafCell: "terrainSigs (leafCell x z b l r y lx lz w) = terrainSigs w"
  by (simp add: leafCell_def terrainSigs_createBlock Math_random_def terrainSigs_randomDrawn Let_def)

lemma terrainSigs_leafLayer: "terrainSigs (leafLayer x z b l r h y w) = terrainSigs w"
  by (simp add: leafLayer_def Let_def terrainSigs_fold_same terrainSigs_leafCell)

lemma terrainSigs_generateTree: "terrainSigs (generateTree x z b w) = terrainSigs w"
proof -
  have trunk: "terrainSigs (fold (\<lambda>y. createBlock (P y) wood) ys v) = terrainSigs v" for P ys v
    by (rule terrainSigs_fold_same) (simp add: terrainSigs_createBlock)
  show ?thesis
    by (simp add: generateTree_def Let_def Math_random_def terrainSigs_fold_same
        terrainSigs_leafLayer terrainSigs_randomDrawn trunk)
qed

lemma topBlockTypeOf_cases: "topBlockTypeOf nz x z = grass \<or> topBlockTypeOf nz x z = stone"
  by (simp add: topBlockTypeOf_def)

lemma terrainSigs_generateColumn:
  "terrainSigs (generateColumn nz n3 x z w) = terrainSigs w @ columnSigs nz n3 x z"
proof -
  have top: "topBlockTypeOf nz x z \<noteq> wood \<and> topBlockTypeOf nz x z \<noteq> leaves"
    using topBlockTypeOf_cases [of nz x z] by auto
  have dirtfill: "terrainSigs (fold (\<lambda>y. createBlock (P y) dirt) ys v)
      = terrainSigs v @ map (\<lambda>y. (P y, dirt)) ys" for P ys v
    using terrainSigs_fold_createBlock [of "\<lambda>_. dirt" P ys v] by simp
  have stonefill: "terrainSigs (fold (\<lambda>y. createBlock (P y) (fillBlockTypeOf n3 x y z)) ys v)
      = terrainSigs v @ map (\<lambda>y. (P y, fillBlockTypeOf n3 x y z)) ys" for P ys v
    using terrainSigs_fold_createBlock [of "\<lambda>y. fillBlockTypeOf n3 x y z" P ys v]
    by (simp add: fillBlockTypeOf_def)
  show ?thesis
    using top
    by (simp add: generateColumn_def Let_def Math_random_def terrainSigs_generateTree
        terrainSigs_randomDrawn terrainSigs_createBlock dirtfill stonefill columnSigs_def)
qed

lemma terrainSigs_row:
  "terrainSigs (fold (generateColumn nz n3 x) zs w) = terrainSigs w @ concat (map (columnSigs nz n3 x) zs)"
  by (induction zs arbitrary: w) (simp_all add: terrainSigs_generateColumn)

lemma terrainSigs_rows:
  "terrainSigs (fold (\<lambda>x. fold (generateColumn nz n3 x) zs) xs w)
     = terrainSigs w @ concat (map (\<lambda>x. concat (map (columnSigs nz n3 x) zs)) xs)"
  by (induction xs arbitrary: w) (simp_all add: terrainSigs_row)

lemma terrainSigs_generateTerrainWith:
  "terrainSigs (generateTerrainWith nz n3 w)
     = terrainSigs w @ concat (map (\<lambda>x. concat (map (columnSigs nz n3 x) [0 .. WORLD_SIZE - 1])) [0 .. WORLD_SIZE - 1])"
  by (simp add: generateTerrainWith_def terrainSigs_rows)

lemma heightOf_ge: assumes "noise_lower nz" shows "- 6 \<le> heightOf nz x z"
proof -
  have "- 2 \<le> nz x z 0.1 4" "- 1 \<le> nz x z 0.2 2" "- (1/2) \<le> nz x z 0.5 1"
    using assms [unfolded noise_lower_def, rule_format, of 4 x z "0.1"]
      assms [unfolded noise_lower_def, rule_format, of 2 x z "0.2"]
      assms [unfolded noise_lower_def, rule_format, of 1 x z "0.5"] by simp_all
  then have "- 4 \<le> baseHeightOf nz x z" by (simp add: baseHeightOf_def)
  then have "- 4 \<le> \<lfloor>baseHeightOf nz x z\<rfloor>" by (subst le_floor_iff) simp
  then show ?thesis unfolding heightOf_def by linarith
qed

lemma dirtDepthOf_ge: assumes "noise_lower nz" shows "1 \<le> dirtDepthOf nz x z"
proof -
  have "- 1 \<le> nz x z 0.4 2"
    using assms [unfolded noise_lower_def, rule_format, of 2 x z "0.4"] by simp
  then have "- 1 \<le> \<lfloor>nz x z 0.4 2\<rfloor>" by (subst le_floor_iff) simp
  then show ?thesis by (simp add: dirtDepthOf_def)
qed

lemma columnSigs_not_distinct:
  assumes "noise_lower nz"
  shows "\<not> distinct (map fst (columnSigs nz n3 x z))"
proof -
  let ?h = "heightOf nz x z" and ?d = "dirtDepthOf nz x z"
  let ?dirts = "map (\<lambda>y. (cell x (?h - y) z, dirt)) [1 .. ?d]"
  let ?fills = "map (\<lambda>y. (cell x (?h - y) z, fillBlockTypeOf n3 x y z)) [?d + 1 .. \<bar>bedrockLevel - ?h\<bar>]"
  have h: "- 6 \<le> ?h" and d: "1 \<le> ?d"
    using assms heightOf_ge dirtDepthOf_ge by auto
  let ?y = "?h - bedrockLevel"
  have y: "cell x (?h - ?y) z = cell x bedrockLevel z" "1 \<le> ?y"
    and a: "\<bar>bedrockLevel - ?h\<bar> = ?y"
    using h by (simp_all add: bedrockLevel_def)
  have "cell x bedrockLevel z \<in> fst ` set (?dirts @ ?fills)"
  proof (cases "?y \<le> ?d")
    case True
    have "(cell x bedrockLevel z, dirt) \<in> (\<lambda>y. (cell x (?h - y) z, dirt)) ` {1 .. ?d}"
      using True y(2) by (intro image_eqI [where x = ?y]) simp_all
    then have "(cell x bedrockLevel z, dirt) \<in> set (?dirts @ ?fills)"
      by simp
    then show ?thesis by (rule image_eqI [rotated]) simp
  next
    case False
    have "(cell x bedrockLevel z, fillBlockTypeOf n3 x ?y z)
        \<in> (\<lambda>y. (cell x (?h - y) z, fillBlockTypeOf n3 x y z)) ` {?d + 1 .. \<bar>bedrockLevel - ?h\<bar>}"
      using False by (intro image_eqI [where x = ?y]) (simp_all add: a)
    then have "(cell x bedrockLevel z, fillBlockTypeOf n3 x ?y z) \<in> set (?dirts @ ?fills)"
      by simp
    then show ?thesis by (rule image_eqI [rotated]) simp
  qed
  then have "cell x bedrockLevel z \<in> set (map fst (?dirts @ ?fills))"
    by (simp only: set_map)
  moreover have "map fst (columnSigs nz n3 x z)
      = cell x ?h z # map fst (?dirts @ ?fills) @ [cell x bedrockLevel z]"
    by (simp add: columnSigs_def)
  ultimately show ?thesis
    by (simp only: distinct.simps distinct_append) simp
qed

lemma map_fst_terrainSigs: "map fst (terrainSigs w) = map position (filter isTerrain (blocks w))"
  by (simp add: terrainSigs_def sig_def comp_def)

lemma distinct_concat_part:
  "distinct (map f (concat (map g xs))) \<Longrightarrow> x \<in> set xs \<Longrightarrow> distinct (map f (g x))"
  by (induction xs) auto

lemma generateTerrainWith_not_distinct:
  assumes "noise_lower nz"
  shows "\<not> distinct (map position (blocks (generateTerrainWith nz n3 w)))"
proof
  assume "distinct (map position (blocks (generateTerrainWith nz n3 w)))"
  then have "distinct (map fst (terrainSigs (generateTerrainWith nz n3 w)))"
    by (simp add: map_fst_terrainSigs distinct_map_filter)
  then have "distinct (map fst (concat (map (\<lambda>x. concat (map (columnSigs nz n3 x) [0 .. WORLD_SIZE - 1]))
      [0 .. WORLD_SIZE - 1])))"
    by (simp add: terrainSigs_generateTerrainWith)
  then have "distinct (map fst (concat (map (columnSigs nz n3 0) [0 .. WORLD_SIZE - 1])))"
    by (rule distinct_concat_part) (simp add: WORLD_SIZE_def)
  then have "distinct (map fst (columnSigs nz n3 0 0))"
    by (rule distinct_concat_part) (simp add: WORLD_SIZE_def)
  then show False using columnSigs_not_distinct [OF assms] by blast
qed

lemma filter_bedrockIn_columnSigs:
  "filter (bedrockIn x z) (columnSigs nz n3 x' z')
     = (if x' = x \<and> z' = z then [(cell x bedrockLevel z, bedrock)] else [])"
proof -
  have top: "topBlockTypeOf nz x' z' \<noteq> bedrock"
    using topBlockTypeOf_cases [of nz x' z'] by auto
  have "filter (bedrockIn x z) (map (\<lambda>y. (P y, dirt)) ys) = []" for P ys
    by (induction ys) (simp_all add: bedrockIn_def)
  moreover have "filter (bedrockIn x z) (map (\<lambda>y. (P y, fillBlockTypeOf n3 x' y z')) ys) = []" for P ys
    by (induction ys) (simp_all add: bedrockIn_def fillBlockTypeOf_def)
  ultimately show ?thesis using top
    by (auto simp add: columnSigs_def bedrockIn_def cell_def BLOCK_SIZE_def)
qed

lemma filter_concat_empty:
  "(\<And>y. y \<in> set ys \<Longrightarrow> filter Q (f y) = []) \<Longrightarrow> filter Q (concat (map f ys)) = []"
  by (induction ys) simp_all

lemma filter_concat_single:
  assumes "i \<le> j" "j \<le> k" and "\<And>y. y \<noteq> j \<Longrightarrow> filter Q (f y) = []"
  shows "filter Q (concat (map f [i .. k])) = filter Q (f j)"
proof -
  have "[i .. k] = [i .. j - 1] @ j # [j + 1 .. k]"
    using assms(1,2) by (rule upto_split3)
  moreover have "filter Q (concat (map f [i .. j - 1])) = []"
    by (rule filter_concat_empty) (simp add: assms(3))
  moreover have "filter Q (concat (map f [j + 1 .. k])) = []"
    by (rule filter_concat_empty) (simp add: assms(3))
  ultimately show ?thesis by simp
qed

lemma filter_bedrockIn_grid:
  assumes "0 \<le> x" "x < WORLD_SIZE" "0 \<le> z" "z < WORLD_SIZE"
  shows "filter (bedrockIn x z)
      (concat (map (\<lambda>x'. concat (map (columnSigs nz n3 x') [0 .. WORLD_SIZE - 1])) [0 .. WORLD_SIZE - 1]))
    = [(cell x bedrockLevel z, bedrock)]"
proof -
  have row: "filter (bedrockIn x z) (concat (map (columnSigs nz n3 x') [0 .. WORLD_SIZE - 1]))
      = filter (bedrockIn x z) (columnSigs nz n3 x' z)" for x'
    using assms(3,4) by (intro filter_concat_single) (simp_all add: filter_bedrockIn_columnSigs)
  have "filter (bedrockIn x z)
      (concat (map (\<lambda>x'. concat (map (columnSigs nz n3 x') [0 .. WORLD_SIZE - 1])) [0 .. WORLD_SIZE - 1]))
    = filter (bedrockIn x z) (concat (map (columnSigs nz n3 x) [0 .. WORLD_SIZE - 1]))"
    using assms(1,2) by (intro filter_concat_single) (simp_all add: row filter_bedrockIn_columnSigs)
  then show ?thesis by (simp add: row filter_bedrockIn_columnSigs)
qed

lemma terrainSigs_emptyWorld: "terrainSigs (emptyWorld rnd) = []"
  by (simp add: terrainSigs_def emptyWorld_def)

lemma bedrock_filter_via_sigs:
  "map (\<lambda>b. vy (position b)) (filter (\<lambda>b. type b = bedrock \<and> inColumn x z b) (blocks w))
     = map (\<lambda>s. vy (fst s)) (filter (bedrockIn x z) (terrainSigs w))"
proof -
  have "filter (\<lambda>b. type b = bedrock \<and> inColumn x z b) bs
      = filter (\<lambda>b. bedrockIn x z (sig b)) (filter isTerrain bs)" for bs
    by (induction bs) (auto simp add: bedrockIn_def inColumn_def sig_def isTerrain_def)
  then show ?thesis
    by (simp add: terrainSigs_def filter_map comp_def sig_def)
qed

lemma generateTerrainWith_bedrock:
  assumes "0 \<le> x" "x < WORLD_SIZE" "0 \<le> z" "z < WORLD_SIZE"
  shows "map (\<lambda>b. vy (position b))
      (filter (\<lambda>b. type b = bedrock \<and> inColumn x z b) (blocks (generateTerrainWith nz n3 (emptyWorld rnd))))
    = [- 7]"
  by (simp add: bedrock_filter_via_sigs terrainSigs_generateTerrainWith terrainSigs_emptyWorld
      filter_bedrockIn_grid [OF assms] cell_def bedrockLevel_def)

lemma columnSigs_top:
  "(cell x (heightOf nz x z) z, topBlockTypeOf nz x z) \<in> set (columnSigs nz n3 x z)"
  by (simp add: columnSigs_def)

lemma columnSigs_below:
  assumes "noise_lower nz" "s \<in> set (columnSigs nz n3 x z)"
  shows "\<exists>y \<le> heightOf nz x z. fst s = cell x y z"
proof -
  have h: "- 6 \<le> heightOf nz x z" and d: "1 \<le> dirtDepthOf nz x z"
    using assms(1) heightOf_ge dirtDepthOf_ge by auto
  consider "s = (cell x (heightOf nz x z) z, topBlockTypeOf nz x z)"
    | y where "1 \<le> y" "s = (cell x (heightOf nz x z - y) z, dirt)"
    | y where "dirtDepthOf nz x z + 1 \<le> y" "s = (cell x (heightOf nz x z - y) z, fillBlockTypeOf n3 x y z)"
    | "s = (cell x bedrockLevel z, bedrock)"
    using assms(2) by (auto simp add: columnSigs_def)
  then show ?thesis
  proof cases
    case 1
    then show ?thesis by auto
  next
    case (2 y)
    then show ?thesis by (intro exI [of _ "heightOf nz x z - y"]) simp
  next
    case (3 y)
    then show ?thesis using d by (intro exI [of _ "heightOf nz x z - y"]) simp
  next
    case 4
    then show ?thesis using h by (intro exI [of _ bedrockLevel]) (simp add: bedrockLevel_def)
  qed
qed

lemma set_terrainSigs_grid:
  "set (terrainSigs (generateTerrainWith nz n3 (emptyWorld rnd)))
     = (\<Union>x \<in> {0 .. WORLD_SIZE - 1}. \<Union>z \<in> {0 .. WORLD_SIZE - 1}. set (columnSigs nz n3 x z))"
  by (simp add: terrainSigs_generateTerrainWith terrainSigs_emptyWorld)

lemma cell_inj: "cell x y z = cell x' y' z' \<longleftrightarrow> x = x' \<and> y = y' \<and> z = z'"
  by (simp add: cell_def BLOCK_SIZE_def)

lemma generateTerrainWith_top:
  assumes nz: "noise_lower nz" and x: "0 \<le> x" "x < WORLD_SIZE" and z: "0 \<le> z" "z < WORLD_SIZE"
  shows "\<exists>b \<in> set (blocks (generateTerrainWith nz n3 (emptyWorld rnd))).
      position b = cell x (heightOf nz x z) z \<and> (type b = grass \<or> type b = stone) \<and>
      (\<forall>b' \<in> set (blocks (generateTerrainWith nz n3 (emptyWorld rnd))).
         inColumn x z b' \<and> isTerrain b' \<longrightarrow> vy (position b') \<le> vy (position b))"
proof -
  let ?w = "generateTerrainWith nz n3 (emptyWorld rnd)"
  have "(cell x (heightOf nz x z) z, topBlockTypeOf nz x z) \<in> set (terrainSigs ?w)"
    unfolding set_terrainSigs_grid using x z columnSigs_top [of x nz z n3]
    by (intro UN_I [of x] UN_I [of z]) simp_all
  then obtain b where b: "b \<in> set (blocks ?w)" "sig b = (cell x (heightOf nz x z) z, topBlockTypeOf nz x z)"
    by (auto simp add: terrainSigs_def)
  have below: "vy (position b') \<le> real_of_int (heightOf nz x z)"
    if b': "b' \<in> set (blocks ?w)" "inColumn x z b'" "isTerrain b'" for b'
  proof -
    have "sig b' \<in> set (terrainSigs ?w)"
      using b'(1,3) by (simp add: terrainSigs_def)
    then obtain x' z' where s: "sig b' \<in> set (columnSigs nz n3 x' z')"
      unfolding set_terrainSigs_grid by blast
    then obtain y where y: "y \<le> heightOf nz x' z'" "position b' = cell x' y z'"
      using columnSigs_below [OF nz s] by (auto simp add: sig_def)
    from b'(2) y(2) have "x' = x" "z' = z"
      by (simp_all add: inColumn_def cell_def BLOCK_SIZE_def)
    with y show ?thesis by (simp add: cell_def)
  qed
  show ?thesis
  proof (intro bexI [of _ b] conjI ballI impI)
    show "position b = cell x (heightOf nz x z) z" using b(2) by (simp add: sig_def)
    show "type b = grass \<or> type b = stone"
      using b(2) topBlockTypeOf_cases [of nz x z] by (simp add: sig_def)
    show "vy (position b') \<le> vy (position b)"
      if "b' \<in> set (blocks ?w)" "inColumn x z b' \<and> isTerrain b'" for b'
      using below [of b'] that b(2) by (simp add: sig_def cell_def)
    show "b \<in> set (blocks ?w)" by (rule b(1))
  qed
qed

lemma generateTerrainWith_columns:
  assumes "noise_lower nz" "0 \<le> x" "x < WORLD_SIZE" "0 \<le> z" "z < WORLD_SIZE"
  shows "map (\<lambda>b. vy (position b))
        (filter (\<lambda>b. type b = bedrock \<and> inColumn x z b) (blocks (generateTerrainWith nz n3 (emptyWorld rnd))))
      = [- 7] \<and>
    (\<exists>b \<in> set (blocks (generateTerrainWith nz n3 (emptyWorld rnd))).
      position b = cell x (heightOf nz x z) z \<and> (type b = grass \<or> type b = stone) \<and>
      (\<forall>b' \<in> set (blocks (generateTerrainWith nz n3 (emptyWorld rnd))).
         inColumn x z b' \<and> isTerrain b' \<longrightarrow> vy (position b') \<le> vy (position b)))"
  using generateTerrainWith_bedrock [OF assms(2-5)] generateTerrainWith_top [OF assms]
  by blast

text \<open>The column at the origin: every noise sample there is half its amplitude, so the column
  has height 1, a grass top and three dirt blocks under it.\<close>

lemma noise_origin: "noise 0 0 sc a = a / 2"
  by (simp add: noise_def)

lemma column_origin: "heightOf noise 0 0 = 1 \<and> topBlockTypeOf noise 0 0 = grass \<and> dirtDepthOf noise 0 0 = 3"
  by (simp add: heightOf_def baseHeightOf_def topBlockTypeOf_def dirtDepthOf_def noise_origin)

text \<open>
  C1. The claim: the world never holds two blocks at one position, and terrain generation
  never produces two blocks at one cell. The code does otherwise. In every column the loop
  that fills stone below the dirt runs \<open>y\<close> up to \<open>\<bar>bedrockLevel - height\<bar>\<close> inclusive, which
  puts a block at the bedrock level \<open>y = - 7\<close> (when the dirt layer already reaches that
  level, a dirt block is there); the bedrock block is then created at the same cell, and
  \<open>createBlock\<close> checks nothing. In the column at the origin, of height 1 with three dirt
  blocks, the fill loop runs from \<open>y = 4\<close> to \<open>y = 8\<close> and ends at \<open>(0, - 7, 0)\<close>, where the
  bedrock block follows. So whatever world generation starts from and whatever \<open>Math.random\<close>
  returns, the generated world holds two blocks at one position.
\<close>

theorem generateTerrain_duplicate_position:
  "\<not> distinct (map position (blocks (generateTerrain w)))"
  unfolding generateTerrain_def
  by (rule generateTerrainWith_not_distinct) (rule noise_lower_noise)

text \<open>
  C8. Generating the 10 x 10 world from the empty registry: in every column \<open>(x, z)\<close> of the
  grid the blocks of type bedrock are exactly one, at height \<open>- 7\<close>; and the column has its
  top block, the block created at \<open>(x, height, z)\<close>, of type grass or stone, with no block of
  the terrain layers (grass, dirt, stone, bedrock) of that column above it. Blocks of trees
  (wood, leaves) can stand higher.
\<close>

theorem generateTerrain_columns:
  assumes "0 \<le> x" "x < WORLD_SIZE" "0 \<le> z" "z < WORLD_SIZE"
  shows "map (\<lambda>b. vy (position b))
        (filter (\<lambda>b. type b = bedrock \<and> inColumn x z b) (blocks (generateTerrain (emptyWorld rnd))))
      = [- 7] \<and>
    (\<exists>b \<in> set (blocks (generateTerrain (emptyWorld rnd))).
      position b = cell x (heightOf noise x z) z \<and> (type b = grass \<or> type b = stone) \<and>
      (\<forall>b' \<in> set (blocks (generateTerrain (emptyWorld rnd))).
         inColumn x z b' \<and> isTerrain b' \<longrightarrow> vy (position b') \<le> vy (position b)))"
  unfolding generateTerrain_def
  by (rule generateTerrainWith_columns [OF noise_lower_noise assms])

theorem generateTerrain_columns_witness:
  "map (\<lambda>b. vy (position b))
        (filter (\<lambda>b. type b = bedrock \<and> inColumn 3 4 b) (blocks (generateTerrain (emptyWorld (\<lambda>n. 0)))))
      = [- 7] \<and>
    (\<exists>b \<in> set (blocks (generateTerrain (emptyWorld (\<lambda>n. 0)))).
      position b = cell 3 (heightOf noise 3 4) 4 \<and> (type b = grass \<or> type b = stone) \<and>
      (\<forall>b' \<in> set (blocks (generateTerrain (emptyWorld (\<lambda>n. 0)))).
         inColumn 3 4 b' \<and> isTerrain b' \<longrightarrow> vy (position b') \<le> vy (position b)))"
  by (rule generateTerrain_columns) (simp_all add: WORLD_SIZE_def)

section \<open>Player movement: jump and gravity\<close>

lemma GRAVITY_value: "GRAVITY = 5764607523034235 / 2 ^ 59"
  unfolding GRAVITY_def using fl_eval [of "- 7" "0.01" 5764607523034235] by simp

lemma JUMP_FORCE_value: "JUMP_FORCE = 5404319552844595 / 2 ^ 55"
  unfolding JUMP_FORCE_def using fl_eval [of "- 3" "0.15" 5404319552844595] by simp

lemma fl_upper: "fl x \<le> x + \<bar>x\<bar> / 2 ^ 53 + 1 / 2 ^ 100"
  using fl_error [of x] tiny_le by linarith

lemma fl_lower: "x - \<bar>x\<bar> / 2 ^ 53 - 1 / 2 ^ 100 \<le> fl x"
  using fl_error [of x] tiny_le by linarith

text \<open>Gravity keeps a velocity of at most 0.15 below 0.15.\<close>

lemma gravity_le:
  assumes "v \<le> 0.15"
  shows "fl (v - GRAVITY) \<le> 0.15"
proof (cases "0 \<le> v - GRAVITY")
  case True
  then have a: "\<bar>v - GRAVITY\<bar> = v - GRAVITY" by simp
  have "fl (v - GRAVITY) \<le> (v - GRAVITY) + (v - GRAVITY) / 2 ^ 53 + 1 / 2 ^ 100"
    using fl_upper [of "v - GRAVITY"] unfolding a .
  also have "\<dots> \<le> (0.15 - GRAVITY) + (0.15 - GRAVITY) / 2 ^ 53 + 1 / 2 ^ 100"
    using assms by (intro add_mono divide_right_mono) simp_all
  also have "\<dots> \<le> 0.15" by (simp add: GRAVITY_value)
  finally show ?thesis .
next
  case False
  then have a: "\<bar>v - GRAVITY\<bar> = - (v - GRAVITY)" by simp
  have "fl (v - GRAVITY) \<le> (v - GRAVITY) + (- (v - GRAVITY)) / 2 ^ 53 + 1 / 2 ^ 100"
    using fl_upper [of "v - GRAVITY"] unfolding a .
  also have "\<dots> = (v - GRAVITY) * (1 - 1 / 2 ^ 53) + 1 / 2 ^ 100"
    by (simp add: field_simps)
  also have "\<dots> \<le> 0 + 1 / 2 ^ 100"
    using False by (intro add_right_mono mult_nonpos_nonneg) simp_all
  also have "\<dots> \<le> 0.15" by simp
  finally show ?thesis .
qed

lemma collideBlock_velY:
  "velY (collideBlock lib cp pc b c) = velY c \<or>
   (velY (collideBlock lib cp pc b c) = 0 \<and> onGround (collideBlock lib cp pc b c))"
  by (simp add: collideBlock_def Let_def)

lemma collideBlock_onGround: "onGround c \<Longrightarrow> onGround (collideBlock lib cp pc b c)"
  by (simp add: collideBlock_def Let_def)

lemma scan_onGround:
  "onGround c \<Longrightarrow> onGround (fold (collideBlock lib cp pc) bs c)"
  by (induction bs arbitrary: c) (simp_all add: collideBlock_onGround)

lemma scan_velY:
  "velY (fold (collideBlock lib cp pc) bs c) = velY c \<or>
   (velY (fold (collideBlock lib cp pc) bs c) = 0 \<and> onGround (fold (collideBlock lib cp pc) bs c))"
proof (induction bs arbitrary: c)
  case Nil
  then show ?case by simp
next
  case (Cons b bs)
  show ?case
    using Cons.IH [of "collideBlock lib cp pc b c"] collideBlock_velY [of lib cp pc b c]
      scan_onGround [of "collideBlock lib cp pc b c" lib cp pc bs]
    by auto
qed

lemma scanBlocks_velY:
  "velY (scanBlocks lib cp np v bs) = v \<or>
   (velY (scanBlocks lib cp np v bs) = 0 \<and> onGround (scanBlocks lib cp np v bs))"
  unfolding scanBlocks_def
  using scan_velY [of lib cp "playerColliderAt np" bs
      "\<lparr>newY = vy np, velY = v, onGround = False, collided = False\<rparr>"]
  by simp

lemma updatePlayerPosition_None: "cameraRef s = None \<Longrightarrow> updatePlayerPosition lib s = s"
  by (simp add: updatePlayerPosition_def)

lemma updatePlayerPosition_camera:
  "cameraRef s \<noteq> None \<Longrightarrow> cameraRef (updatePlayerPosition lib s) \<noteq> None"
  by (auto simp add: updatePlayerPosition_def Let_def split: prod.splits)

lemma updatePlayerPosition_frame:
  "world (updatePlayerPosition lib s) = world s"
  "inventory (updatePlayerPosition lib s) = inventory s"
  "selectedBlockIndex (updatePlayerPosition lib s) = selectedBlockIndex s"
  "destructionProgress (updatePlayerPosition lib s) = destructionProgress s"
  "isDestructionInProgress (updatePlayerPosition lib s) = isDestructionInProgress s"
  "highlightedBlockRef (updatePlayerPosition lib s) = highlightedBlockRef s"
  by (simp_all add: updatePlayerPosition_def Let_def split: option.splits prod.splits)

lemma updatePlayerPosition_velocity:
  assumes "cameraRef s \<noteq> None"
  shows "vy (playerVelocity (updatePlayerPosition lib s))
        = fst (applyGravityAndJump (moveState s) (vy (playerVelocity s), playerOnGround s))
     \<or> (vy (playerVelocity (updatePlayerPosition lib s)) = 0 \<and> playerOnGround (updatePlayerPosition lib s))"
proof -
  obtain camera where cam: "cameraRef s = Some camera" using assms by blast
  obtain v g where vg: "applyGravityAndJump (moveState s) (vy (playerVelocity s), playerOnGround s) = (v, g)"
    by (cases "applyGravityAndJump (moveState s) (vy (playerVelocity s), playerOnGround s)")
  let ?np = "candidatePosition lib camera (updateRotation (moveState s) (eulerRef s)) (moveState s) v"
  show ?thesis
    using scanBlocks_velY [of lib "cam_position camera" ?np v "blocks (world s)"]
    by (simp add: updatePlayerPosition_def cam vg Let_def)
qed

lemma airborne_tick:
  assumes "cameraRef s \<noteq> None" "\<not> playerOnGround s" "\<not> playerOnGround (updatePlayerPosition lib s)"
  shows "vy (playerVelocity (updatePlayerPosition lib s)) = fl (vy (playerVelocity s) - GRAVITY)"
  using updatePlayerPosition_velocity [OF assms(1), of lib] assms(2,3)
  by (simp add: applyGravityAndJump_def)

lemma jump_tick:
  assumes "cameraRef s \<noteq> None" "playerOnGround s" "jump (moveState s)"
  shows "vy (playerVelocity (updatePlayerPosition lib s)) = JUMP_FORCE"
proof -
  obtain camera where cam: "cameraRef s = Some camera" using assms by blast
  have vg: "applyGravityAndJump (moveState s) (vy (playerVelocity s), playerOnGround s) = (JUMP_FORCE, False)"
    using assms by (simp add: applyGravityAndJump_def)
  have pos: "velY c > 0 \<Longrightarrow> velY (collideBlock lib cp pc b c) = velY c" for c cp pc b
    by (simp add: collideBlock_def Let_def)
  have "velY c > 0 \<Longrightarrow> velY (fold (collideBlock lib cp pc) bs c) = velY c" for c cp pc bs
    by (induction bs arbitrary: c) (simp_all add: pos)
  then have "velY (scanBlocks lib cp np JUMP_FORCE bs) = JUMP_FORCE" for cp np bs
    by (simp add: scanBlocks_def JUMP_FORCE_value)
  then show ?thesis
    by (simp add: updatePlayerPosition_def cam vg Let_def)
qed

lemma updatePlayerPosition_empty:
  assumes "cameraRef s \<noteq> None" "blocks (world s) = []"
  shows "\<not> playerOnGround (updatePlayerPosition lib s)"
    "vy (playerVelocity (updatePlayerPosition lib s))
       = fst (applyGravityAndJump (moveState s) (vy (playerVelocity s), playerOnGround s))"
  using assms by (auto simp add: updatePlayerPosition_def scanBlocks_def Let_def split: prod.splits)

lemma handleJump_onGround:
  "playerOnGround s \<Longrightarrow>
   vy (playerVelocity (handleJump True s)) = JUMP_FORCE \<and> \<not> playerOnGround (handleJump True s)"
  by (simp add: handleJump_def Let_def)

text \<open>What the other handlers leave alone: the player's velocity.\<close>

lemma highlightBlockAtPosition_frame:
  "world (highlightBlockAtPosition lib x y s) = world s"
  "inventory (highlightBlockAtPosition lib x y s) = inventory s"
  "selectedBlockIndex (highlightBlockAtPosition lib x y s) = selectedBlockIndex s"
  "playerVelocity (highlightBlockAtPosition lib x y s) = playerVelocity s"
  "cameraRef (highlightBlockAtPosition lib x y s) = cameraRef s"
  "destructionProgress (highlightBlockAtPosition lib x y s) = destructionProgress s"
  "isDestructionInProgress (highlightBlockAtPosition lib x y s) = isDestructionInProgress s"
  by (simp_all add: highlightBlockAtPosition_def highlightBlock_def split: option.splits list.splits)

lemma destroyBlockAtPosition_frame:
  "inventory (destroyBlockAtPosition lib x y s) = inventory s"
  "selectedBlockIndex (destroyBlockAtPosition lib x y s) = selectedBlockIndex s"
  "playerVelocity (destroyBlockAtPosition lib x y s) = playerVelocity s"
  "cameraRef (destroyBlockAtPosition lib x y s) = cameraRef s"
  by (simp_all add: destroyBlockAtPosition_def Let_def split: option.splits list.splits)

lemma addBlockAtPosition_frame:
  assumes "addBlockAtPosition lib x y s = Inr s'"
  shows "playerVelocity s' = playerVelocity s" "cameraRef s' = cameraRef s"
    "selectedBlockIndex s' = selectedBlockIndex s" "length (inventory s') = length (inventory s)"
    "highlightedBlockRef s' = highlightedBlockRef s" "destructionProgress s' = destructionProgress s"
    "isDestructionInProgress s' = isDestructionInProgress s"
  using assms
  by (auto simp add: addBlockAtPosition_def Let_def split: option.splits list.splits if_splits)

lemma handleBlockSelection_frame:
  assumes "handleBlockSelection lib x y st s = Inr s'"
  shows "playerVelocity s' = playerVelocity s" "cameraRef s' = cameraRef s"
    "selectedBlockIndex s' = selectedBlockIndex s" "length (inventory s') = length (inventory s)"
    "destructionProgress s' = destructionProgress s"
    "isDestructionInProgress s' = isDestructionInProgress s"
  using assms addBlockAtPosition_frame [of lib x y s s']
  by (auto simp add: handleBlockSelection_def highlightBlockAtPosition_frame
      split: option.splits if_splits)

lemma elapse_frame:
  "inventory (elapse lib dt s) = inventory s"
  "selectedBlockIndex (elapse lib dt s) = selectedBlockIndex s"
  "playerVelocity (elapse lib dt s) = playerVelocity s"
  "cameraRef (elapse lib dt s) = cameraRef s"
  by (simp_all add: elapse_def Let_def destroyBlockAtPosition_frame
      split: SharedValue.splits Callback.splits)

lemma startDestructionProgress_frame:
  "world (startDestructionProgress lib x y s) = world s"
  "inventory (startDestructionProgress lib x y s) = inventory s"
  "selectedBlockIndex (startDestructionProgress lib x y s) = selectedBlockIndex s"
  "playerVelocity (startDestructionProgress lib x y s) = playerVelocity s"
  "cameraRef (startDestructionProgress lib x y s) = cameraRef s"
  by (simp_all add: startDestructionProgress_def Let_def highlightBlockAtPosition_frame)

lemma cancelDestructionProgress_frame:
  "world (cancelDestructionProgress s) = world s"
  "inventory (cancelDestructionProgress s) = inventory s"
  "selectedBlockIndex (cancelDestructionProgress s) = selectedBlockIndex s"
  "playerVelocity (cancelDestructionProgress s) = playerVelocity s"
  "cameraRef (cancelDestructionProgress s) = cameraRef s"
  "highlightedBlockRef (cancelDestructionProgress s) = highlightedBlockRef s"
  by (simp_all add: cancelDestructionProgress_def)

lemma step_velocity:
  assumes "step lib e s = Inr s'" "vy (playerVelocity s) \<le> 0.15"
  shows "vy (playerVelocity s') \<le> 0.15"
proof (cases e)
  case Frame
  show ?thesis
  proof (cases "cameraRef s")
    case None
    then show ?thesis using assms Frame by (simp add: updatePlayerPosition_None)
  next
    case (Some camera)
    then have "cameraRef s \<noteq> None" by simp
    from updatePlayerPosition_velocity [OF this, of lib] assms Frame
      gravity_le [OF assms(2)]
    show ?thesis
      by (auto simp add: applyGravityAndJump_def JUMP_FORCE_value split: if_splits)
  qed
next
  case (JumpButton v)
  then show ?thesis using assms by (auto simp add: handleJump_def Let_def JUMP_FORCE_value)
next
  case (TapEnd x y st)
  then show ?thesis using assms handleBlockSelection_frame(1) [of lib x y st s s'] by simp
next
  case (LongPressBegin x y st)
  then show ?thesis using assms handleBlockSelection_frame(1) [of lib x y st s s'] by simp
next
  case (InventoryPress i)
  then show ?thesis using assms by (auto simp add: selectBlockFromInventory_def split: if_splits)
qed (use assms in \<open>auto simp add: onContextCreate_def handleMovementJoystick_def handleJoystickRelease_def
      startCameraPan_def handleCameraPan_def stopCameraPan_def startDestructionProgress_frame
      destroyBlockAtPosition_frame cancelDestructionProgress_frame elapse_frame\<close>)

lemma run_velocity:
  "run lib es s = Inr s' \<Longrightarrow> vy (playerVelocity s) \<le> 0.15 \<Longrightarrow> vy (playerVelocity s') \<le> 0.15"
proof (induction es arbitrary: s)
  case Nil
  then show ?case by simp
next
  case (Cons e es)
  then obtain t where t: "step lib e s = Inr t" "run lib es t = Inr s'"
    by (auto split: sum.splits)
  from step_velocity [OF t(1) Cons.prems(2)] Cons.IH [OF t(2)] show ?case by blast
qed

text \<open>
  C9. The vertical velocity never exceeds the jump impulse 0.15: if it is at most 0.15 before
  a sequence of events (frames, with their gravity, jump branch and landing; jump button
  presses; and all other events), it is at most 0.15 after it.
\<close>

theorem vertical_velocity_bound:
  assumes "vy (playerVelocity s) \<le> 0.15" and "run lib es s = Inr s'"
  shows "vy (playerVelocity s') \<le> 0.15"
  using run_velocity [OF assms(2)] assms(1) by simp

theorem vertical_velocity_bound_witness:
  "vy (playerVelocity (exampleApp\<lparr>playerOnGround := True\<rparr>)) \<le> 0.15
   \<and> run exampleLib [JumpButton True, Frame] (exampleApp\<lparr>playerOnGround := True\<rparr>)
       = Inr (updatePlayerPosition exampleLib (handleJump True (exampleApp\<lparr>playerOnGround := True\<rparr>)))
   \<and> vy (playerVelocity (updatePlayerPosition exampleLib (handleJump True (exampleApp\<lparr>playerOnGround := True\<rparr>))))
       \<le> 0.15"
proof -
  have a: "vy (playerVelocity (exampleApp\<lparr>playerOnGround := True\<rparr>)) \<le> 0.15"
    by (simp add: exampleApp_def initialApp_def)
  have b: "run exampleLib [JumpButton True, Frame] (exampleApp\<lparr>playerOnGround := True\<rparr>)
       = Inr (updatePlayerPosition exampleLib (handleJump True (exampleApp\<lparr>playerOnGround := True\<rparr>)))"
    by simp
  from vertical_velocity_bound [OF a b] a b show ?thesis by blast
qed

lemma gravity_delta: "GRAVITY - 0.01 = 3 / (25 * 2 ^ 59)"
  by (simp add: GRAVITY_value)

lemma gravity_step:
  "\<bar>fl (v - GRAVITY) - (v - 0.01)\<bar> \<le> \<bar>v - 0.01\<bar> / 2 ^ 53 + 1 / 2 ^ 60"
proof -
  define d :: real where "d = 3 / (25 * 2 ^ 59)"
  have g: "GRAVITY = 0.01 + d" using gravity_delta by (simp add: d_def)
  have d0: "0 \<le> d" by (simp add: d_def)
  have e1: "\<bar>fl (v - GRAVITY) - (v - GRAVITY)\<bar> \<le> \<bar>v - GRAVITY\<bar> / 2 ^ 53 + 1 / 2 ^ 100"
    using fl_upper [of "v - GRAVITY"] fl_lower [of "v - GRAVITY"] by linarith
  have "\<bar>v - GRAVITY\<bar> \<le> \<bar>v - 0.01\<bar> + d" unfolding g using d0 by linarith
  then have "\<bar>v - GRAVITY\<bar> / 2 ^ 53 \<le> (\<bar>v - 0.01\<bar> + d) / 2 ^ 53"
    by (rule divide_right_mono) simp
  then have e2: "\<bar>v - GRAVITY\<bar> / 2 ^ 53 \<le> \<bar>v - 0.01\<bar> / 2 ^ 53 + d / 2 ^ 53"
    by (simp add: add_divide_distrib)
  have e3: "\<bar>fl (v - GRAVITY) - (v - 0.01)\<bar> \<le> \<bar>fl (v - GRAVITY) - (v - GRAVITY)\<bar> + d"
    unfolding g using d0 by linarith
  have e4: "d / 2 ^ 53 + 1 / 2 ^ 100 + d \<le> 1 / 2 ^ 60" by (simp add: d_def)
  from e1 e2 e3 e4 show ?thesis by linarith
qed

lemma gravity_strict:
  assumes "\<bar>v\<bar> \<le> 2 ^ 40"
  shows "fl (v - GRAVITY) < v"
proof -
  have g: "0 \<le> GRAVITY" by (simp add: GRAVITY_value)
  have "\<bar>v - GRAVITY\<bar> \<le> 2 ^ 40 + GRAVITY" using assms g by linarith
  then have "\<bar>v - GRAVITY\<bar> / 2 ^ 53 \<le> (2 ^ 40 + GRAVITY) / 2 ^ 53"
    by (rule divide_right_mono) simp
  moreover have "(2 ^ 40 + GRAVITY) / 2 ^ 53 + 1 / 2 ^ 100 < GRAVITY"
    by (simp add: GRAVITY_value)
  ultimately show ?thesis using fl_upper [of "v - GRAVITY"] by linarith
qed

lemma gravity_drift:
  assumes "\<bar>v\<bar> \<le> 4000"
  shows "\<bar>fl (v - GRAVITY) - (v - 0.01)\<bar> \<le> 1 / 2 ^ 41"
proof -
  define c :: real where "c = 0.01"
  have c: "0 \<le> c" "c \<le> 1" by (simp_all add: c_def)
  have "\<bar>v - c\<bar> \<le> 4001" using assms c by linarith
  then have "\<bar>v - c\<bar> / 2 ^ 53 \<le> 4001 / 2 ^ 53" by (rule divide_right_mono) simp
  moreover have "(4001::real) / 2 ^ 53 + 1 / 2 ^ 60 \<le> 1 / 2 ^ 41" by simp
  ultimately have "\<bar>fl (v - GRAVITY) - (v - c)\<bar> \<le> 1 / 2 ^ 41"
    using gravity_step [of v] unfolding c_def by linarith
  then show ?thesis by (simp only: c_def)
qed

lemma funpow_camera:
  "cameraRef s \<noteq> None \<Longrightarrow> cameraRef ((updatePlayerPosition lib ^^ k) s) \<noteq> None"
  by (induction k) (simp_all add: updatePlayerPosition_camera)

lemma airborne_ticks:
  assumes "cameraRef s \<noteq> None" "\<forall>k \<le> n. \<not> playerOnGround ((updatePlayerPosition lib ^^ k) s)"
    "\<bar>vy (playerVelocity s)\<bar> \<le> 1000" "n \<le> 100000"
  shows "\<bar>vy (playerVelocity ((updatePlayerPosition lib ^^ n) s)) - (vy (playerVelocity s) - real n * 0.01)\<bar>
           \<le> real n / 2 ^ 41"
  using assms(2,4)
proof (induction n)
  case 0
  then show ?case by simp
next
  case (Suc n)
  define c :: real where "c = 0.01"
  have c: "0 \<le> c" "c \<le> 1 / 100" by (simp_all add: c_def)
  let ?t = "(updatePlayerPosition lib ^^ n) s"
  let ?w = "vy (playerVelocity s)" and ?v = "vy (playerVelocity ?t)"
  have air: "\<not> playerOnGround ?t" "\<not> playerOnGround (updatePlayerPosition lib ?t)"
    using Suc.prems(1) [rule_format, of n] Suc.prems(1) [rule_format, of "Suc n"] by simp_all
  have st: "vy (playerVelocity (updatePlayerPosition lib ?t)) = fl (?v - GRAVITY)"
    using airborne_tick [OF funpow_camera [OF assms(1)] air] .
  have "\<forall>k \<le> n. \<not> playerOnGround ((updatePlayerPosition lib ^^ k) s)" "n \<le> 100000"
    using Suc.prems by simp_all
  then have ih: "\<bar>?v - (?w - real n * c)\<bar> \<le> real n / 2 ^ 41"
    unfolding c_def by (rule Suc.IH)
  have n: "real n \<le> 100000" using Suc.prems(2) by simp
  have "real n / 2 ^ 41 \<le> 100000 / 2 ^ 41" using n by (rule divide_right_mono) simp
  then have n1: "real n / 2 ^ 41 \<le> 1" by simp
  have "real n * c \<le> 100000 * (1 / 100)" using n c by (intro mult_mono) simp_all
  then have "real n * c \<le> 1000" by simp
  moreover have "0 \<le> real n * c" using c by simp
  ultimately have "\<bar>?v\<bar> \<le> 4000" using ih assms(3) n1 c by linarith
  from gravity_drift [OF this]
  have "\<bar>fl (?v - GRAVITY) - (?v - c)\<bar> \<le> 1 / 2 ^ 41" by (simp only: c_def)
  moreover have "real (Suc n) * c = real n * c + c" by (simp add: algebra_simps)
  moreover have "real (Suc n) / 2 ^ 41 = real n / 2 ^ 41 + 1 / 2 ^ 41"
    by (simp add: add_divide_distrib)
  ultimately have "\<bar>fl (?v - GRAVITY) - (?w - real (Suc n) * c)\<bar> \<le> real (Suc n) / 2 ^ 41"
    using ih by linarith
  then show ?case by (simp only: st c_def funpow.simps o_apply)
qed

lemma airborne_decreasing:
  assumes "cameraRef s \<noteq> None" "\<forall>k \<le> n. \<not> playerOnGround ((updatePlayerPosition lib ^^ k) s)"
    "\<bar>vy (playerVelocity s)\<bar> \<le> 1000" "n \<le> 100000" "k < n"
  shows "vy (playerVelocity ((updatePlayerPosition lib ^^ Suc k) s))
       < vy (playerVelocity ((updatePlayerPosition lib ^^ k) s))"
proof -
  let ?t = "(updatePlayerPosition lib ^^ k) s"
  have air: "\<not> playerOnGround ?t" "\<not> playerOnGround (updatePlayerPosition lib ?t)"
    using assms(2) [rule_format, of k] assms(2) [rule_format, of "Suc k"] assms(5) by simp_all
  have st: "vy (playerVelocity (updatePlayerPosition lib ?t)) = fl (vy (playerVelocity ?t) - GRAVITY)"
    using airborne_tick [OF funpow_camera [OF assms(1)] air] .
  have "\<forall>j \<le> k. \<not> playerOnGround ((updatePlayerPosition lib ^^ j) s)"
    using assms(2,5) by simp
  moreover have k5: "k \<le> 100000" using assms(4,5) by simp
  ultimately
  have d: "\<bar>vy (playerVelocity ?t) - (vy (playerVelocity s) - real k * 0.01)\<bar> \<le> real k / 2 ^ 41"
    by (rule airborne_ticks [OF assms(1) _ assms(3)])
  define c :: real where "c = 0.01"
  have c: "0 \<le> c" "c \<le> 1 / 100" by (simp_all add: c_def)
  have kk: "real k \<le> 100000" using k5 by simp
  have "real k / 2 ^ 41 \<le> 100000 / 2 ^ 41" using kk by (rule divide_right_mono) simp
  then have k1: "real k / 2 ^ 41 \<le> 1" by simp
  have "real k * c \<le> 100000 * (1 / 100)" using kk c by (intro mult_mono) simp_all
  then have "real k * c \<le> 1000" by simp
  moreover have "0 \<le> real k * c" using c by simp
  ultimately have "\<bar>vy (playerVelocity ?t)\<bar> \<le> 4000" using d [folded c_def] assms(3) k1 c by linarith
  then have "\<bar>vy (playerVelocity ?t)\<bar> \<le> 2 ^ 40" by simp
  from gravity_strict [OF this] show ?thesis by (simp add: st)
qed


text \<open>
  C3, as amended. From an on-ground state a jump intent (the jump button's handler) sets the
  vertical velocity to the jump impulse, which is the double nearest to 0.15, and clears
  \<open>playerOnGround\<close>; the jump branch of a tick does the same to the two variables, and the
  vertical velocity at the end of that tick is the jump impulse. On a tick that the player
  begins and ends off the ground, the vertical velocity \<open>v\<close> becomes the double nearest to
  \<open>v - g\<close>, where \<open>g\<close> is the double nearest to 0.01: the new velocity differs from
  \<open>v - 0.01\<close> by at most \<open>\<bar>v - 0.01\<bar> / 2 ^ 53 + 1 / 2 ^ 60\<close>, and it is strictly smaller
  than \<open>v\<close> as long as \<open>\<bar>v\<bar>\<close> is at most \<open>2 ^ 40\<close>. Over \<open>n\<close> such ticks in a row, at
  most 100000, from a velocity of magnitude at most 1000, the velocity decreases strictly at
  every tick and ends within \<open>n / 2 ^ 41\<close> of \<open>v - n * 0.01\<close>.
\<close>

theorem jump_then_fall:
  "(playerOnGround s \<longrightarrow>
      vy (playerVelocity (handleJump True s)) = JUMP_FORCE \<and> \<not> playerOnGround (handleJump True s))
   \<and> (jump ms \<longrightarrow> applyGravityAndJump ms (v, True) = (JUMP_FORCE, False))
   \<and> (cameraRef s \<noteq> None \<and> playerOnGround s \<and> jump (moveState s) \<longrightarrow>
        vy (playerVelocity (updatePlayerPosition lib s)) = JUMP_FORCE)
   \<and> JUMP_FORCE = fl 0.15 \<and> JUMP_FORCE = 5404319552844595 / 2 ^ 55
   \<and> GRAVITY = fl 0.01 \<and> GRAVITY = 5764607523034235 / 2 ^ 59
   \<and> (cameraRef s \<noteq> None \<and> \<not> playerOnGround s \<and> \<not> playerOnGround (updatePlayerPosition lib s) \<longrightarrow>
        vy (playerVelocity (updatePlayerPosition lib s)) = fl (vy (playerVelocity s) - GRAVITY)
        \<and> \<bar>vy (playerVelocity (updatePlayerPosition lib s)) - (vy (playerVelocity s) - 0.01)\<bar>
             \<le> \<bar>vy (playerVelocity s) - 0.01\<bar> / 2 ^ 53 + 1 / 2 ^ 60
        \<and> (\<bar>vy (playerVelocity s)\<bar> \<le> 2 ^ 40 \<longrightarrow>
             vy (playerVelocity (updatePlayerPosition lib s)) < vy (playerVelocity s)))
   \<and> (cameraRef s \<noteq> None \<and> (\<forall>k \<le> n. \<not> playerOnGround ((updatePlayerPosition lib ^^ k) s))
        \<and> \<bar>vy (playerVelocity s)\<bar> \<le> 1000 \<and> n \<le> 100000 \<longrightarrow>
        \<bar>vy (playerVelocity ((updatePlayerPosition lib ^^ n) s)) - (vy (playerVelocity s) - real n * 0.01)\<bar>
             \<le> real n / 2 ^ 41
        \<and> (\<forall>k < n. vy (playerVelocity ((updatePlayerPosition lib ^^ Suc k) s))
                     < vy (playerVelocity ((updatePlayerPosition lib ^^ k) s))))"
proof (intro conjI impI allI)
  show "vy (playerVelocity (handleJump True s)) = JUMP_FORCE" if "playerOnGround s"
    using handleJump_onGround [OF that] by simp
  show "\<not> playerOnGround (handleJump True s)" if "playerOnGround s"
    using handleJump_onGround [OF that] by simp
  show "applyGravityAndJump ms (v, True) = (JUMP_FORCE, False)" if "jump ms"
    using that by (simp add: applyGravityAndJump_def)
  show "vy (playerVelocity (updatePlayerPosition lib s)) = JUMP_FORCE"
    if "cameraRef s \<noteq> None \<and> playerOnGround s \<and> jump (moveState s)"
    using jump_tick [of s lib] that by simp
  show "JUMP_FORCE = fl 0.15" by (rule JUMP_FORCE_def)
  show "JUMP_FORCE = 5404319552844595 / 2 ^ 55" by (rule JUMP_FORCE_value)
  show "GRAVITY = fl 0.01" by (rule GRAVITY_def)
  show "GRAVITY = 5764607523034235 / 2 ^ 59" by (rule GRAVITY_value)
  show "vy (playerVelocity (updatePlayerPosition lib s)) = fl (vy (playerVelocity s) - GRAVITY)"
    if "cameraRef s \<noteq> None \<and> \<not> playerOnGround s \<and> \<not> playerOnGround (updatePlayerPosition lib s)"
    using airborne_tick [of s lib] that by simp
  show "\<bar>vy (playerVelocity (updatePlayerPosition lib s)) - (vy (playerVelocity s) - 0.01)\<bar>
             \<le> \<bar>vy (playerVelocity s) - 0.01\<bar> / 2 ^ 53 + 1 / 2 ^ 60"
    if "cameraRef s \<noteq> None \<and> \<not> playerOnGround s \<and> \<not> playerOnGround (updatePlayerPosition lib s)"
    using airborne_tick [of s lib] that gravity_step [of "vy (playerVelocity s)"] by simp
  show "vy (playerVelocity (updatePlayerPosition lib s)) < vy (playerVelocity s)"
    if "cameraRef s \<noteq> None \<and> \<not> playerOnGround s \<and> \<not> playerOnGround (updatePlayerPosition lib s)"
      and "\<bar>vy (playerVelocity s)\<bar> \<le> 2 ^ 40"
    using airborne_tick [of s lib] that(1) gravity_strict [OF that(2)] by simp
  show "\<bar>vy (playerVelocity ((updatePlayerPosition lib ^^ n) s)) - (vy (playerVelocity s) - real n * 0.01)\<bar>
             \<le> real n / 2 ^ 41"
    if "cameraRef s \<noteq> None \<and> (\<forall>k \<le> n. \<not> playerOnGround ((updatePlayerPosition lib ^^ k) s))
        \<and> \<bar>vy (playerVelocity s)\<bar> \<le> 1000 \<and> n \<le> 100000"
    using airborne_ticks [of s n lib] that by blast
  show "vy (playerVelocity ((updatePlayerPosition lib ^^ Suc k) s))
                     < vy (playerVelocity ((updatePlayerPosition lib ^^ k) s))"
    if "cameraRef s \<noteq> None \<and> (\<forall>k \<le> n. \<not> playerOnGround ((updatePlayerPosition lib ^^ k) s))
        \<and> \<bar>vy (playerVelocity s)\<bar> \<le> 1000 \<and> n \<le> 100000" and "k < n" for k
    using airborne_decreasing [of s n lib k] that by blast
qed

lemma exampleEmptyApp_facts:
  "playerOnGround exampleEmptyApp" "cameraRef exampleEmptyApp \<noteq> None"
  "blocks (world exampleEmptyApp) = []" "vy (playerVelocity exampleEmptyApp) = 0"
  "moveState exampleEmptyApp = releasedMoveState"
  by (simp_all add: exampleEmptyApp_def exampleApp_def initialApp_def)

lemma jumped_facts:
  "cameraRef (handleJump False (handleJump True exampleEmptyApp)) \<noteq> None"
  "blocks (world (handleJump False (handleJump True exampleEmptyApp))) = []"
  "\<not> playerOnGround (handleJump False (handleJump True exampleEmptyApp))"
  "vy (playerVelocity (handleJump False (handleJump True exampleEmptyApp))) = JUMP_FORCE"
  "moveState (handleJump False (handleJump True exampleEmptyApp)) = releasedMoveState"
  by (simp_all add: handleJump_def Let_def exampleEmptyApp_facts releasedMoveState_def)

lemma fall_value: "fl (JUMP_FORCE - GRAVITY) = 5044031582654955 / 2 ^ 55"
  unfolding JUMP_FORCE_value GRAVITY_value
  using fl_eval [of "- 3" "5404319552844595 / 2 ^ 55 - 5764607523034235 / 2 ^ 59" 5044031582654955]
  by simp

text \<open>
  C3 as stated fails in its second part: in the small world without blocks, the player jumps
  (the velocity is the double 0.15), releases the jump button, and the next tick, which
  ends off the ground, leaves the velocity 0.13999999999999999 (the double
  \<open>5044031582654955 / 2 ^ 55\<close>): the decrease is neither 0.01 nor the double nearest to 0.01.
\<close>

theorem fall_not_by_exactly_gravity:
  "playerOnGround exampleEmptyApp
   \<and> vy (playerVelocity (handleJump False (handleJump True exampleEmptyApp))) = 5404319552844595 / 2 ^ 55
   \<and> \<not> playerOnGround (handleJump False (handleJump True exampleEmptyApp))
   \<and> \<not> jump (moveState (handleJump False (handleJump True exampleEmptyApp)))
   \<and> \<not> playerOnGround (updatePlayerPosition exampleLib (handleJump False (handleJump True exampleEmptyApp)))
   \<and> vy (playerVelocity (updatePlayerPosition exampleLib (handleJump False (handleJump True exampleEmptyApp))))
        = 5044031582654955 / 2 ^ 55
   \<and> vy (playerVelocity (handleJump False (handleJump True exampleEmptyApp)))
        - vy (playerVelocity (updatePlayerPosition exampleLib (handleJump False (handleJump True exampleEmptyApp))))
        \<noteq> 0.01
   \<and> vy (playerVelocity (handleJump False (handleJump True exampleEmptyApp)))
        - vy (playerVelocity (updatePlayerPosition exampleLib (handleJump False (handleJump True exampleEmptyApp))))
        \<noteq> GRAVITY"
proof -
  let ?t = "handleJump False (handleJump True exampleEmptyApp)"
  have v0: "vy (playerVelocity ?t) = 5404319552844595 / 2 ^ 55"
    by (simp add: jumped_facts JUMP_FORCE_value)
  have air: "\<not> playerOnGround (updatePlayerPosition exampleLib ?t)"
    by (rule updatePlayerPosition_empty(1) [OF jumped_facts(1,2)])
  have "vy (playerVelocity (updatePlayerPosition exampleLib ?t)) = fl (JUMP_FORCE - GRAVITY)"
    by (simp add: updatePlayerPosition_empty(2) [OF jumped_facts(1,2)] applyGravityAndJump_def
        jumped_facts releasedMoveState_def)
  then have v1: "vy (playerVelocity (updatePlayerPosition exampleLib ?t)) = 5044031582654955 / 2 ^ 55"
    by (simp only: fall_value)
  have d1: "vy (playerVelocity ?t) - vy (playerVelocity (updatePlayerPosition exampleLib ?t)) \<noteq> 0.01"
    unfolding v0 v1 by simp
  have d2: "vy (playerVelocity ?t) - vy (playerVelocity (updatePlayerPosition exampleLib ?t)) \<noteq> GRAVITY"
    unfolding v0 v1 GRAVITY_value by simp
  have j: "\<not> jump (moveState ?t)" by (simp add: jumped_facts releasedMoveState_def)
  from exampleEmptyApp_facts(1) v0 jumped_facts(3) j air v1 d1 d2 show ?thesis by (intro conjI)
qed


lemma funpow_world: "world ((updatePlayerPosition lib ^^ k) s) = world s"
  by (induction k) (simp_all add: updatePlayerPosition_frame)

lemma empty_airborne:
  assumes "cameraRef s \<noteq> None" "blocks (world s) = []" "\<not> playerOnGround s"
  shows "\<not> playerOnGround ((updatePlayerPosition lib ^^ k) s)"
proof (cases k)
  case 0
  then show ?thesis using assms(3) by simp
next
  case (Suc j)
  have "\<not> playerOnGround (updatePlayerPosition lib ((updatePlayerPosition lib ^^ j) s))"
    by (rule updatePlayerPosition_empty(1) [OF funpow_camera [OF assms(1)]])
       (simp add: funpow_world assms(2))
  then show ?thesis using Suc by simp
qed

theorem jump_then_fall_witness:
  "playerOnGround exampleEmptyApp
   \<and> vy (playerVelocity (handleJump True exampleEmptyApp)) = JUMP_FORCE
   \<and> \<not> playerOnGround (handleJump True exampleEmptyApp)
   \<and> jump (releasedMoveState\<lparr>jump := True\<rparr>)
   \<and> applyGravityAndJump (releasedMoveState\<lparr>jump := True\<rparr>) (0, True) = (JUMP_FORCE, False)
   \<and> cameraRef (exampleEmptyApp\<lparr>moveState := releasedMoveState\<lparr>jump := True\<rparr>\<rparr>) \<noteq> None
   \<and> playerOnGround (exampleEmptyApp\<lparr>moveState := releasedMoveState\<lparr>jump := True\<rparr>\<rparr>)
   \<and> vy (playerVelocity (updatePlayerPosition exampleLib
         (exampleEmptyApp\<lparr>moveState := releasedMoveState\<lparr>jump := True\<rparr>\<rparr>))) = JUMP_FORCE
   \<and> cameraRef (handleJump False (handleJump True exampleEmptyApp)) \<noteq> None
   \<and> \<not> playerOnGround (handleJump False (handleJump True exampleEmptyApp))
   \<and> \<not> playerOnGround (updatePlayerPosition exampleLib (handleJump False (handleJump True exampleEmptyApp)))
   \<and> \<not> playerOnGround (updatePlayerPosition exampleLib
           (updatePlayerPosition exampleLib (handleJump False (handleJump True exampleEmptyApp))))
   \<and> vy (playerVelocity (updatePlayerPosition exampleLib (handleJump False (handleJump True exampleEmptyApp))))
        = fl (vy (playerVelocity (handleJump False (handleJump True exampleEmptyApp))) - GRAVITY)
   \<and> \<bar>vy (playerVelocity (updatePlayerPosition exampleLib (handleJump False (handleJump True exampleEmptyApp))))
        - (vy (playerVelocity (handleJump False (handleJump True exampleEmptyApp))) - 0.01)\<bar>
        \<le> \<bar>vy (playerVelocity (handleJump False (handleJump True exampleEmptyApp))) - 0.01\<bar> / 2 ^ 53
           + 1 / 2 ^ 60
   \<and> \<bar>vy (playerVelocity (handleJump False (handleJump True exampleEmptyApp)))\<bar> \<le> 1000
   \<and> vy (playerVelocity (updatePlayerPosition exampleLib (handleJump False (handleJump True exampleEmptyApp))))
        < vy (playerVelocity (handleJump False (handleJump True exampleEmptyApp)))
   \<and> (2::nat) \<le> 100000
   \<and> \<bar>vy (playerVelocity ((updatePlayerPosition exampleLib ^^ 2) (handleJump False (handleJump True exampleEmptyApp))))
        - (vy (playerVelocity (handleJump False (handleJump True exampleEmptyApp))) - real 2 * 0.01)\<bar>
        \<le> real 2 / 2 ^ 41
   \<and> vy (playerVelocity ((updatePlayerPosition exampleLib ^^ Suc 1) (handleJump False (handleJump True exampleEmptyApp))))
        < vy (playerVelocity ((updatePlayerPosition exampleLib ^^ 1) (handleJump False (handleJump True exampleEmptyApp))))"
proof -
  let ?j = "releasedMoveState\<lparr>jump := True\<rparr>"
  let ?gj = "exampleEmptyApp\<lparr>moveState := ?j\<rparr>"
  let ?t = "handleJump False (handleJump True exampleEmptyApp)"
  let ?u = "updatePlayerPosition exampleLib"
  note g = exampleEmptyApp_facts(1)
  from jump_then_fall [of exampleEmptyApp] g
  have a: "vy (playerVelocity (handleJump True exampleEmptyApp)) = JUMP_FORCE"
    "\<not> playerOnGround (handleJump True exampleEmptyApp)"
    by blast+
  have jm: "jump ?j" by simp
  from jump_then_fall [of _ ?j 0] jm
  have b: "applyGravityAndJump ?j (0, True) = (JUMP_FORCE, False)" by blast
  have gj: "cameraRef ?gj \<noteq> None" "playerOnGround ?gj" "jump (moveState ?gj)"
    by (simp_all add: exampleEmptyApp_facts)
  from jump_then_fall [of ?gj _ _ exampleLib] gj
  have c: "vy (playerVelocity (?u ?gj)) = JUMP_FORCE" by blast
  note cam = jumped_facts(1) and air0 = jumped_facts(3)
  have air: "\<not> playerOnGround ((?u ^^ k) ?t)" for k
    by (rule empty_airborne [OF jumped_facts(1,2,3)])
  have air1: "\<not> playerOnGround (?u ?t)" and air2: "\<not> playerOnGround (?u (?u ?t))"
    using air [of 1] air [of 2] by (simp_all add: numeral_2_eq_2)
  have small: "\<bar>vy (playerVelocity ?t)\<bar> \<le> 1000" "\<bar>vy (playerVelocity ?t)\<bar> \<le> 2 ^ 40"
    by (simp_all add: jumped_facts JUMP_FORCE_value)
  from jump_then_fall [of ?t _ _ exampleLib] cam air0 air1 small(2)
  have d: "vy (playerVelocity (?u ?t)) = fl (vy (playerVelocity ?t) - GRAVITY)"
    "\<bar>vy (playerVelocity (?u ?t)) - (vy (playerVelocity ?t) - 0.01)\<bar>
        \<le> \<bar>vy (playerVelocity ?t) - 0.01\<bar> / 2 ^ 53 + 1 / 2 ^ 60"
    "vy (playerVelocity (?u ?t)) < vy (playerVelocity ?t)"
    by blast+
  have all: "\<forall>k \<le> 2. \<not> playerOnGround ((?u ^^ k) ?t)" using air by blast
  have n: "(2::nat) \<le> 100000" by simp
  from jump_then_fall [of ?t _ _ exampleLib 2] cam all small(1) n
  have e: "\<bar>vy (playerVelocity ((?u ^^ 2) ?t)) - (vy (playerVelocity ?t) - real 2 * 0.01)\<bar> \<le> real 2 / 2 ^ 41"
    "\<forall>k < 2. vy (playerVelocity ((?u ^^ Suc k) ?t)) < vy (playerVelocity ((?u ^^ k) ?t))"
    by blast+
  have "(1::nat) < 2" by simp
  with e(2) have f: "vy (playerVelocity ((?u ^^ Suc 1) ?t)) < vy (playerVelocity ((?u ^^ 1) ?t))"
    by blast
  from g a jm b gj(1,2) c cam air0 air1 air2 d(1,2) small(1) d(3) n e(1) f show ?thesis
    by (intro conjI)
qed

section \<open>Placement and the inventory\<close>

lemma multiplyScalar_one:
  "multiplyScalar (transformDirection lib n m) BLOCK_SIZE = transformDirection lib n m"
  by (simp add: transformDirection_def normalize_v_def multiplyScalar_def BLOCK_SIZE_def)

lemma occupied_iff:
  "list_ex (\<lambda>block. vx (position block) = vx p \<and> vy (position block) = vy p \<and> vz (position block) = vz p) bs
     = list_ex (\<lambda>block. position block = p) bs"
  by (induction bs) auto


lemma destroyBlockAtPosition_pick:
  "destroyBlockAtPosition lib x y s =
     (case cameraRef s of
        None \<Rightarrow> s
      | Some camera \<Rightarrow>
         (case pickBlock lib x y s of
            None \<Rightarrow> s\<lparr>isDestructionInProgress := False, destructionProgress := Settled 0\<rparr>
          | Some (b, i) \<Rightarrow>
              s\<lparr>isDestructionInProgress := False, destructionProgress := Settled 0,
                world := (world s)\<lparr>blocks :=
                  filter (\<lambda>block. mesh_id (mesh block) \<noteq> mesh_id (mesh b)) (blocks (world s))\<rparr>,
                highlightedBlockRef :=
                  (if highlightedBlockRef s = Some (mesh_id (mesh b)) then None else highlightedBlockRef s)\<rparr>))"
  by (simp add: destroyBlockAtPosition_def pickBlock_def Let_def split: option.splits list.splits)

lemma addBlockAtPosition_pick:
  assumes "pickBlock lib x y s = Some (b, i)" "face i = Some n"
    "selectedBlockIndex s < length (inventory s)"
  shows "addBlockAtPosition lib x y s =
     (if count (inventory s ! selectedBlockIndex s) \<le> 0
         \<or> occupied (add (position b) (transformDirection lib n (mesh b))) s
      then Inr s
      else Inr (s\<lparr>world := createBlock (add (position b) (transformDirection lib n (mesh b)))
                      (slot_type (inventory s ! selectedBlockIndex s)) (world s),
                 inventory := (inventory s)[selectedBlockIndex s :=
                     (inventory s ! selectedBlockIndex s)
                       \<lparr>count := count (inventory s ! selectedBlockIndex s) - 1\<rparr>]\<rparr>))"
  using assms
  by (auto simp add: addBlockAtPosition_def pickBlock_def Let_def multiplyScalar_one occupied_iff
      occupied_def split: option.splits list.splits)

lemma addBlockAtPosition_no_target:
  assumes "pickBlock lib x y s = None \<or> (\<exists>b i. pickBlock lib x y s = Some (b, i) \<and> face i = None)"
    "selectedBlockIndex s < length (inventory s)"
  shows "addBlockAtPosition lib x y s = Inr s"
  using assms
  by (auto simp add: addBlockAtPosition_def pickBlock_def Let_def split: option.splits list.splits)


lemma blocks_createBlock:
  "\<exists>nb. blocks (createBlock p t w) = blocks w @ [nb] \<and> position nb = p \<and> type nb = t
      \<and> mesh_id (mesh nb) = nextMeshId w"
  by (simp add: createBlock_def Math_random_def Let_def)

lemma nextMeshId_createBlock: "nextMeshId (createBlock p t w) = Suc (nextMeshId w)"
  by (simp add: createBlock_def Math_random_def Let_def)

text \<open>The mesh is turned about the Y axis only, so the second column of its world matrix is
  \<open>(0, 1, 0)\<close>, whatever \<open>Math.sin\<close> and \<open>Math.cos\<close> return.\<close>

lemma matrixWorld_up:
  "e4 (matrixWorld lib m) = 0" "e5 (matrixWorld lib m) = 1" "e6 (matrixWorld lib m) = 0"
  by (simp_all add: matrixWorld_def compose_def setFromEuler_def js_sin_def js_cos_def Let_def)

lemma transformDirection_up:
  "transformDirection lib \<lparr>vx = 0, vy = 1, vz = 0\<rparr> m = \<lparr>vx = 0, vy = 1, vz = 0\<rparr>"
  by (simp add: transformDirection_def applyMatrix_def matrixWorld_up normalize_v_def length_v_def
      multiplyScalar_def)



lemma handleBlockSelection_cases:
  assumes "cameraRef s \<noteq> None" "selectedBlockIndex s < length (inventory s)"
  shows "handleBlockSelection lib x y st s =
     (if st = 5 \<and> count (inventory s ! selectedBlockIndex s) > 0
      then addBlockAtPosition lib x y s
      else Inr (highlightBlockAtPosition lib x y s))"
  using assms by (auto simp add: handleBlockSelection_def split: option.splits)




lemma list_all_update: "list_all P xs \<Longrightarrow> P v \<Longrightarrow> list_all P (xs[i := v])"
  by (induction xs arbitrary: i) (auto split: nat.splits)

lemma addBlockAtPosition_counts:
  assumes "addBlockAtPosition lib x y s = Inr s'" "countsNonNegative s"
  shows "countsNonNegative s'"
  using assms
  by (auto simp add: addBlockAtPosition_def countsNonNegative_def Let_def list_all_update
      split: option.splits list.splits if_splits)

lemma step_counts:
  assumes "step lib e s = Inr s'" "countsNonNegative s"
  shows "countsNonNegative s'"
proof (cases e)
  case (TapEnd x y st)
  then show ?thesis
    using assms addBlockAtPosition_counts [of lib x y s s']
    by (auto simp add: handleBlockSelection_def countsNonNegative_def highlightBlockAtPosition_frame
        split: option.splits if_splits)
next
  case (LongPressBegin x y st)
  then show ?thesis
    using assms addBlockAtPosition_counts [of lib x y s s']
    by (auto simp add: handleBlockSelection_def countsNonNegative_def highlightBlockAtPosition_frame
        split: option.splits if_splits)
next
  case (InventoryPress i)
  then show ?thesis
    using assms by (auto simp add: selectBlockFromInventory_def countsNonNegative_def split: if_splits)
qed (use assms in \<open>auto simp add: countsNonNegative_def onContextCreate_def handleMovementJoystick_def
      handleJoystickRelease_def handleJump_def Let_def startCameraPan_def handleCameraPan_def
      stopCameraPan_def startDestructionProgress_frame destroyBlockAtPosition_frame
      cancelDestructionProgress_frame elapse_frame updatePlayerPosition_frame\<close>)

lemma run_counts:
  "run lib es s = Inr s' \<Longrightarrow> countsNonNegative s \<Longrightarrow> countsNonNegative s'"
proof (induction es arbitrary: s)
  case Nil
  then show ?case by simp
next
  case (Cons e es)
  then obtain t where t: "step lib e s = Inr t" "run lib es t = Inr s'"
    by (auto split: sum.splits)
  from step_counts [OF t(1) Cons.prems(2)] Cons.IH [OF t(2)] show ?case by blast
qed

lemma addBlockAtPosition_exhausted:
  assumes "selectedBlockIndex s < length (inventory s)" "count (inventory s ! selectedBlockIndex s) \<le> 0"
  shows "addBlockAtPosition lib x y s = Inr s"
  using assms by (simp add: addBlockAtPosition_def split: option.splits)

lemma handleBlockSelection_exhausted:
  assumes "selectedBlockIndex s < length (inventory s)" "count (inventory s ! selectedBlockIndex s) \<le> 0"
  shows "\<exists>s2. handleBlockSelection lib x y st s = Inr s2
      \<and> blocks (world s2) = blocks (world s) \<and> inventory s2 = inventory s"
  using assms
  by (auto simp add: handleBlockSelection_def highlightBlockAtPosition_frame split: option.splits)

text \<open>
  C6. The counts of the inventory start non-negative and stay so through every sequence of
  events, hence through every sequence of placement attempts. With a count of 0 in the
  selected slot a placement attempt returns the state unchanged, and a tap changes neither
  the blocks nor the inventory: the count stays 0 and no block is inserted.
\<close>

theorem inventory_never_negative:
  "countsNonNegative (initialApp rnd)
   \<and> (countsNonNegative s \<and> run lib es s = Inr s' \<longrightarrow> countsNonNegative s')
   \<and> (selectedBlockIndex s < length (inventory s) \<and> count (inventory s ! selectedBlockIndex s) = 0 \<longrightarrow>
        addBlockAtPosition lib x y s = Inr s
        \<and> (\<exists>s2. step lib (TapEnd x y st) s = Inr s2
              \<and> blocks (world s2) = blocks (world s) \<and> inventory s2 = inventory s))"
proof (intro conjI impI)
  show "countsNonNegative (initialApp rnd)"
    by (simp add: countsNonNegative_def initialApp_def)
  show "countsNonNegative s'" if "countsNonNegative s \<and> run lib es s = Inr s'"
    using that run_counts by blast
  show "addBlockAtPosition lib x y s = Inr s"
    if "selectedBlockIndex s < length (inventory s) \<and> count (inventory s ! selectedBlockIndex s) = 0"
    using that by (simp add: addBlockAtPosition_exhausted)
  show "\<exists>s2. step lib (TapEnd x y st) s = Inr s2
              \<and> blocks (world s2) = blocks (world s) \<and> inventory s2 = inventory s"
    if "selectedBlockIndex s < length (inventory s) \<and> count (inventory s ! selectedBlockIndex s) = 0"
    using that handleBlockSelection_exhausted [of s lib x y st] by simp
qed


theorem inventory_never_negative_witness:
  "countsNonNegative exampleLastBlockApp
   \<and> (\<exists>s1 s2. run exampleLib [TapEnd 10 10 5] exampleLastBlockApp = Inr s1
        \<and> selectedBlockIndex s1 < length (inventory s1)
        \<and> count (inventory s1 ! selectedBlockIndex s1) = 0
        \<and> length (blocks (world s1)) = 2
        \<and> run exampleLib [TapEnd 10 10 5, TapEnd 10 10 5] exampleLastBlockApp = Inr s2
        \<and> countsNonNegative s2
        \<and> blocks (world s2) = blocks (world s1) \<and> inventory s2 = inventory s1)"
proof -
  define s1 where "s1 = exampleLastBlockApp
      \<lparr>world := createBlock \<lparr>vx = 0, vy = 1, vz = 0\<rparr> grass (world exampleLastBlockApp),
       inventory := [\<lparr>slot_type = grass, count = 0\<rparr>]\<rparr>"
  have c0: "countsNonNegative exampleLastBlockApp"
    by (simp add: countsNonNegative_def exampleLastBlockApp_def)
  have pick: "pickBlock exampleLib 10 10 exampleLastBlockApp
      = Some (exampleBlock, \<lparr>object = 0, face = Some \<lparr>vx = 0, vy = 1, vz = 0\<rparr>\<rparr>)"
    by (simp add: pickBlock_def exampleLastBlockApp_def exampleApp_def exampleLib_def raycastAt_def
        findBlock_def exampleBlock_def)
  have tgt: "add (position exampleBlock) (transformDirection exampleLib \<lparr>vx = 0, vy = 1, vz = 0\<rparr> (mesh exampleBlock))
      = \<lparr>vx = 0, vy = 1, vz = 0\<rparr>"
    by (simp add: transformDirection_up add_def exampleBlock_def)
  have free: "\<not> occupied \<lparr>vx = 0, vy = 1, vz = 0\<rparr> exampleLastBlockApp"
    by (simp add: occupied_def exampleLastBlockApp_def exampleApp_def exampleBlock_def)
  have sel: "selectedBlockIndex exampleLastBlockApp = 0"
    and inv: "inventory exampleLastBlockApp = [\<lparr>slot_type = grass, count = 1\<rparr>]"
    by (simp_all add: exampleLastBlockApp_def exampleApp_def initialApp_def)
  have f: "face \<lparr>object = 0, face = Some \<lparr>vx = 0, vy = 1, vz = 0\<rparr>\<rparr> = Some \<lparr>vx = 0, vy = 1, vz = 0\<rparr>"
    by simp
  have idx0: "selectedBlockIndex exampleLastBlockApp < length (inventory exampleLastBlockApp)"
    by (simp add: sel inv)
  have add1: "addBlockAtPosition exampleLib 10 10 exampleLastBlockApp = Inr s1"
    unfolding addBlockAtPosition_pick [OF pick f idx0] tgt
    using free by (simp add: sel inv s1_def)
  have cam0: "cameraRef exampleLastBlockApp \<noteq> None"
    by (simp add: exampleLastBlockApp_def exampleApp_def)
  have st1: "step exampleLib (TapEnd 10 10 5) exampleLastBlockApp = Inr s1"
    using add1 by (simp add: handleBlockSelection_cases [OF cam0 idx0] sel inv)
  have r1: "run exampleLib [TapEnd 10 10 5] exampleLastBlockApp = Inr s1"
    by (simp add: st1 del: step.simps)
  have idx1: "selectedBlockIndex s1 < length (inventory s1)"
    and cnt1: "count (inventory s1 ! selectedBlockIndex s1) = 0"
    by (simp_all add: s1_def sel)
  have len1: "length (blocks (world s1)) = 2"
    using blocks_createBlock [of "\<lparr>vx = 0, vy = 1, vz = 0\<rparr>" grass "world exampleLastBlockApp"]
    by (auto simp add: s1_def exampleLastBlockApp_def exampleApp_def)
  from inventory_never_negative [of _ s1 exampleLib _ _ 10 10 5] idx1 cnt1
  obtain s2 where s2: "step exampleLib (TapEnd 10 10 5) s1 = Inr s2"
      "blocks (world s2) = blocks (world s1)" "inventory s2 = inventory s1"
    by blast
  have r2: "run exampleLib [TapEnd 10 10 5, TapEnd 10 10 5] exampleLastBlockApp = Inr s2"
    by (simp add: st1 s2(1) del: step.simps)
  from inventory_never_negative [of _ exampleLastBlockApp exampleLib "[TapEnd 10 10 5, TapEnd 10 10 5]" s2] c0 r2
  have c2: "countsNonNegative s2" by blast
  from c0 r1 idx1 cnt1 len1 r2 c2 s2(2,3) show ?thesis by blast
qed

section \<open>Object identities stay distinct\<close>

text \<open>Every mesh gets a fresh identity, so in every state that the component can reach from
  its initial state no two blocks of the registry are the same object.\<close>

lemma distinctMeshes_fold:
  "(\<And>y w. distinctMeshes w \<Longrightarrow> distinctMeshes (f y w)) \<Longrightarrow> distinctMeshes w \<Longrightarrow>
   distinctMeshes (fold f ys w)"
  by (induction ys arbitrary: w) simp_all

lemma distinctMeshes_randomDrawn: "distinctMeshes (w\<lparr>randomDrawn := n\<rparr>) = distinctMeshes w"
  by (simp add: distinctMeshes_def)

lemma distinctMeshes_createBlock: "distinctMeshes w \<Longrightarrow> distinctMeshes (createBlock p t w)"
  by (auto simp add: distinctMeshes_def createBlock_def Math_random_def Let_def list_all_iff)

lemma distinctMeshes_leafCell: "distinctMeshes w \<Longrightarrow> distinctMeshes (leafCell x z b l r y lx lz w)"
  by (simp add: leafCell_def Math_random_def Let_def distinctMeshes_createBlock distinctMeshes_randomDrawn)

lemma distinctMeshes_leafLayer:
  assumes "distinctMeshes w"
  shows "distinctMeshes (leafLayer x z b l r h y w)"
proof -
  have row: "distinctMeshes (fold (leafCell x z b l rr y lx) zs v)" if "distinctMeshes v" for rr lx zs v
    using _ that by (rule distinctMeshes_fold) (rule distinctMeshes_leafCell)
  have "distinctMeshes (fold (\<lambda>lx. fold (leafCell x z b l rr y lx) zs) xs w)" for rr zs xs
    using _ assms by (rule distinctMeshes_fold) (rule row)
  then show ?thesis by (simp add: leafLayer_def Let_def)
qed

lemma distinctMeshes_generateTree:
  assumes "distinctMeshes w"
  shows "distinctMeshes (generateTree x z b w)"
proof -
  have trunk: "distinctMeshes (fold (\<lambda>y. createBlock (P y) wood) ys v)" if "distinctMeshes v" for P ys v
    using _ that by (rule distinctMeshes_fold) (rule distinctMeshes_createBlock)
  have layers: "distinctMeshes (fold (leafLayer x z b l r h) ys v)" if "distinctMeshes v" for l r h ys v
    using _ that by (rule distinctMeshes_fold) (rule distinctMeshes_leafLayer)
  show ?thesis
    using assms
    by (simp add: generateTree_def Let_def Math_random_def layers trunk distinctMeshes_randomDrawn)
qed

lemma distinctMeshes_generateColumn:
  assumes "distinctMeshes w"
  shows "distinctMeshes (generateColumn nz n3 x z w)"
proof -
  have fill: "distinctMeshes (fold (\<lambda>y. createBlock (P y) (T y)) ys v)" if "distinctMeshes v" for P T ys v
    using _ that by (rule distinctMeshes_fold) (rule distinctMeshes_createBlock)
  show ?thesis
    using assms
    by (simp add: generateColumn_def Let_def Math_random_def distinctMeshes_generateTree
        distinctMeshes_randomDrawn distinctMeshes_createBlock fill)
qed

lemma distinctMeshes_generateTerrain:
  assumes "distinctMeshes w"
  shows "distinctMeshes (generateTerrain w)"
proof -
  have row: "distinctMeshes (fold (generateColumn nz n3 x) zs v)" if "distinctMeshes v" for nz n3 x zs v
    using _ that by (rule distinctMeshes_fold) (rule distinctMeshes_generateColumn)
  have "distinctMeshes (fold (\<lambda>x. fold (generateColumn nz n3 x) zs) xs w)" for nz n3 zs xs
    using _ assms by (rule distinctMeshes_fold) (rule row)
  then show ?thesis by (simp add: generateTerrain_def generateTerrainWith_def)
qed

lemma distinctMeshes_filter:
  "distinctMeshes w \<Longrightarrow> distinctMeshes (w\<lparr>blocks := filter P (blocks w)\<rparr>)"
  by (simp add: distinctMeshes_def distinct_map_filter list_all_iff)

lemma distinctMeshes_destroy:
  "distinctMeshes (world s) \<Longrightarrow> distinctMeshes (world (destroyBlockAtPosition lib x y s))"
  by (simp add: destroyBlockAtPosition_pick distinctMeshes_filter split: option.splits prod.splits)

lemma distinctMeshes_add:
  "addBlockAtPosition lib x y s = Inr s' \<Longrightarrow> distinctMeshes (world s) \<Longrightarrow> distinctMeshes (world s')"
  by (auto simp add: addBlockAtPosition_def Let_def distinctMeshes_createBlock
      split: option.splits list.splits if_splits)

lemma distinctMeshes_elapse:
  "distinctMeshes (world s) \<Longrightarrow> distinctMeshes (world (elapse lib dt s))"
  by (simp add: elapse_def Let_def distinctMeshes_destroy split: SharedValue.splits Callback.splits)

lemma step_distinctMeshes:
  assumes "step lib e s = Inr s'" "distinctMeshes (world s)"
  shows "distinctMeshes (world s')"
proof (cases e)
  case (TapEnd x y st)
  then show ?thesis
    using assms distinctMeshes_add [of lib x y s s']
    by (auto simp add: handleBlockSelection_def highlightBlockAtPosition_frame
        split: option.splits if_splits)
next
  case (LongPressBegin x y st)
  then show ?thesis
    using assms distinctMeshes_add [of lib x y s s']
    by (auto simp add: handleBlockSelection_def highlightBlockAtPosition_frame
        split: option.splits if_splits)
next
  case (InventoryPress i)
  then show ?thesis
    using assms by (auto simp add: selectBlockFromInventory_def split: if_splits)
qed (use assms in \<open>auto simp add: onContextCreate_def handleMovementJoystick_def
      handleJoystickRelease_def handleJump_def Let_def startCameraPan_def handleCameraPan_def
      stopCameraPan_def startDestructionProgress_frame distinctMeshes_destroy
      cancelDestructionProgress_frame distinctMeshes_elapse updatePlayerPosition_frame
      distinctMeshes_generateTerrain\<close>)

lemma run_distinctMeshes:
  "run lib es s = Inr s' \<Longrightarrow> distinctMeshes (world s) \<Longrightarrow> distinctMeshes (world s')"
proof (induction es arbitrary: s)
  case Nil
  then show ?case by simp
next
  case (Cons e es)
  then obtain t where t: "step lib e s = Inr t" "run lib es t = Inr s'"
    by (auto split: sum.splits)
  from step_distinctMeshes [OF t(1) Cons.prems(2)] Cons.IH [OF t(2)] show ?case by blast
qed

lemma distinctMeshes_initialApp: "distinctMeshes (world (initialApp rnd))"
  by (simp add: initialApp_def emptyWorld_def distinctMeshes_def)

lemma reachable_distinctMeshes:
  "run lib es (initialApp rnd) = Inr s \<Longrightarrow> distinctMeshes (world s)"
  using run_distinctMeshes [OF _ distinctMeshes_initialApp] by blast

section \<open>Destruction\<close>




















lemma elapsedOf_simps [simp]:
  "elapsedOf [] = 0" "elapsedOf (e # es) = msOf e + elapsedOf es"
  "elapsedOf (es @ es') = elapsedOf es + elapsedOf es'"
  by (simp_all add: elapsedOf_def)


















end
